theory Spec2Isabelle
  imports Main "HOL-Library.Multiset"
begin

section \<open>JavaScript values\<close>

text \<open>
  Request bodies, API responses and the records held by the client stores are JSON
  values. \<open>JUndefined\<close> is the value of a property that is not there. Numbers are
  never computed with in the code modelled here, so integers stand for them.
\<close>

datatype jsval =
    JUndefined
  | JNull
  | JBool bool
  | JNum int
  | JStr string
  | JArr "jsval list"
  | JObj "(string \<times> jsval) list"

type_synonym obj = "(string \<times> jsval) list"

text \<open>Truthiness, as \<open>!x\<close>, \<open>x || y\<close>, \<open>x ? a : b\<close> and \<open>if (x)\<close> read it.\<close>

fun truthy :: "jsval \<Rightarrow> bool" where
  "truthy JUndefined = False"
| "truthy JNull = False"
| "truthy (JBool b) = b"
| "truthy (JNum n) = (n \<noteq> 0)"
| "truthy (JStr s) = (s \<noteq> [])"
| "truthy (JArr xs) = True"
| "truthy (JObj kvs) = True"

definition js_or :: "jsval \<Rightarrow> jsval \<Rightarrow> jsval" where
  "js_or a b = (if truthy a then a else b)"

text \<open>Property read on an object: a missing key reads as \<open>undefined\<close>.\<close>

definition get :: "obj \<Rightarrow> string \<Rightarrow> jsval" where
  "get kvs k = (case map_of kvs k of None \<Rightarrow> JUndefined | Some v \<Rightarrow> v)"

text \<open>
  Property read on any value: \<open>undefined.title\<close> and \<open>null.title\<close> throw a TypeError
  (\<open>None\<close>); a primitive or an array has none of the properties read here.
\<close>

fun js_prop :: "jsval \<Rightarrow> string \<Rightarrow> jsval option" where
  "js_prop JUndefined k = None"
| "js_prop JNull k = None"
| "js_prop (JObj kvs) k = Some (get kvs k)"
| "js_prop v k = Some JUndefined"

text \<open>
  Property write \<open>o[k] = v\<close>: an existing key keeps its place, a new key goes last.
  An object literal \<open>{ k1: v1, ...o, k2: v2 }\<close> is the writes from left to right, and
  \<open>spread\<close> is its \<open>...o\<close> part.
\<close>

fun assign :: "string \<Rightarrow> jsval \<Rightarrow> obj \<Rightarrow> obj" where
  "assign k v [] = [(k, v)]"
| "assign k v (p # ps) = (if fst p = k then (k, v) # ps else p # assign k v ps)"

definition spread :: "obj \<Rightarrow> obj \<Rightarrow> obj" where
  "spread src acc = fold (\<lambda>(k, v). assign k v) src acc"

text \<open>The rest pattern \<open>({ id, ...note }) => note\<close>: the object without its \<open>id\<close>.\<close>

definition without :: "string \<Rightarrow> obj \<Rightarrow> obj" where
  "without k kvs = filter (\<lambda>p. fst p \<noteq> k) kvs"

section \<open>Server: responses and the database layer\<close>

text \<open>
  A handler answers with an error, \<open>Inl (status, message)\<close>, from
  \<open>res.status(status).json({ error: message })\<close>, or with its success payload.
  It runs on its table and returns the table it leaves.
\<close>

type_synonym ident = string
type_synonym 'a response = "(nat \<times> string) + 'a"

text \<open>
  Modelled from the spec: \<open>prisma/schema.prisma\<close> is not among the sources. The rows and
  the types of their columns follow the data model of the spec: an opaque unique
  identifier assigned by the database, text and boolean columns, the owner's
  identifier, and the creation and update times, which the database maintains.
  A value of the wrong type for its column makes the database call throw (\<open>None\<close>).
  A \<open>string\<close> is the UTF-8 text of a JavaScript string. The database is PostgreSQL,
  whose text cannot hold the character U+0000: a string with it is rejected, in a
  column and in a query alike.
\<close>

fun as_string :: "jsval \<Rightarrow> string option" where
  "as_string (JStr s) = Some s"
| "as_string v = None"

definition text_ok :: "string \<Rightarrow> bool" where
  "text_ok s \<longleftrightarrow> CHR 0x00 \<notin> set s"

fun as_text :: "jsval \<Rightarrow> string option" where
  "as_text (JStr s) = (if text_ok s then Some s else None)"
| "as_text v = None"

fun as_bool :: "jsval \<Rightarrow> bool option" where
  "as_bool (JBool b) = Some b"
| "as_bool v = None"

text \<open>
  Modelled from the spec: the identifier the database gives a new row is one that no
  row of the table has.
\<close>

definition freshId :: "ident list \<Rightarrow> ident" where
  "freshId used = replicate (Suc (foldr (\<lambda>s m. max (length s) m) used 0)) CHR ''0''"

text \<open>\<open>orderBy\<close>: the rows in the order of a list of sort keys, the first key first.\<close>

datatype ord = Lt | Eq | Gt

definition asc :: "('a \<Rightarrow> 'k::linorder) \<Rightarrow> 'a \<Rightarrow> 'a \<Rightarrow> ord" where
  "asc f a b = (if f a < f b then Lt else if f a = f b then Eq else Gt)"

definition desc :: "('a \<Rightarrow> 'k::linorder) \<Rightarrow> 'a \<Rightarrow> 'a \<Rightarrow> ord" where
  "desc f a b = asc f b a"

fun lex_cmp :: "('a \<Rightarrow> 'a \<Rightarrow> ord) list \<Rightarrow> 'a \<Rightarrow> 'a \<Rightarrow> ord" where
  "lex_cmp [] a b = Eq"
| "lex_cmp (c # cs) a b = (case c a b of Eq \<Rightarrow> lex_cmp cs a b | r \<Rightarrow> r)"

definition precedes :: "('a \<Rightarrow> 'a \<Rightarrow> ord) list \<Rightarrow> 'a \<Rightarrow> 'a \<Rightarrow> bool" where
  "precedes keys a b = (lex_cmp keys a b \<noteq> Gt)"

fun insert_by :: "('a \<Rightarrow> 'a \<Rightarrow> bool) \<Rightarrow> 'a \<Rightarrow> 'a list \<Rightarrow> 'a list" where
  "insert_by le x [] = [x]"
| "insert_by le x (y # ys) = (if le x y then x # y # ys else y # insert_by le x ys)"

definition orderBy :: "('a \<Rightarrow> 'a \<Rightarrow> ord) list \<Rightarrow> 'a list \<Rightarrow> 'a list" where
  "orderBy keys rows = foldr (insert_by (precedes keys)) rows []"

section \<open>Server: notes controller\<close>

text \<open>
  Modelled from the spec: the note columns of the missing schema, as the controller
  uses them. The title, content and color are strings and the pinned flag a boolean.
\<close>

record Note =
  n_id :: ident
  n_title :: string
  n_content :: string
  n_color :: string
  n_isPinned :: bool
  n_userId :: ident
  n_createdAt :: nat
  n_updatedAt :: nat

text \<open>The \<open>data\<close> object handed to \<open>prisma.note.create\<close>, \<open>createMany\<close> and \<open>update\<close>.\<close>

record note_data =
  nd_title :: jsval
  nd_content :: jsval
  nd_color :: jsval
  nd_isPinned :: jsval

text \<open>
  \<open>prisma.note.create\<close>: the row for a \<open>data\<close> object, under the identifier the database
  assigns; it throws when a column gets a value that is not of its type.
\<close>

definition note_row :: "ident \<Rightarrow> ident \<Rightarrow> nat \<Rightarrow> note_data \<Rightarrow> Note option" where
  "note_row i uid now d =
     (case (as_text (nd_title d), as_text (nd_content d),
            as_text (nd_color d), as_bool (nd_isPinned d)) of
        (Some t, Some c, Some col, Some p) \<Rightarrow>
          Some \<lparr>n_id = i, n_title = t, n_content = c, n_color = col, n_isPinned = p,
                n_userId = uid, n_createdAt = now, n_updatedAt = now\<rparr>
      | _ \<Rightarrow> None)"

definition note_create :: "ident \<Rightarrow> nat \<Rightarrow> note_data \<Rightarrow> Note list \<Rightarrow> (Note \<times> Note list) option" where
  "note_create uid now d table =
     (case note_row (freshId (map n_id table)) uid now d of
        None \<Rightarrow> None
      | Some r \<Rightarrow> Some (r, table @ [r]))"

text \<open>
  \<open>prisma.note.createMany\<close> with \<open>skipDuplicates: true\<close>. A \<open>data\<close> entry may carry an
  identifier of its own (\<open>Some i\<close>); an entry without one gets a new identifier from
  the database. A row whose identifier the table has already is skipped and not
  counted. The batch is one statement: when any entry is rejected nothing is inserted.
\<close>

fun note_createMany ::
  "ident \<Rightarrow> nat \<Rightarrow> (ident option \<times> note_data) list \<Rightarrow> Note list \<Rightarrow> (nat \<times> Note list) option" where
  "note_createMany uid now [] table = Some (0, table)"
| "note_createMany uid now ((oid, d) # ds) table =
     (case note_row (case oid of Some i \<Rightarrow> i | None \<Rightarrow> freshId (map n_id table)) uid now d of
        None \<Rightarrow> None
      | Some r \<Rightarrow>
          (if n_id r \<in> set (map n_id table) then note_createMany uid now ds table
           else (case note_createMany uid now ds (table @ [r]) of
                   None \<Rightarrow> None
                 | Some (c, t') \<Rightarrow> Some (Suc c, t'))))"

text \<open>
  \<open>prisma.note.update\<close>: a field of \<open>data\<close> that is \<open>undefined\<close> is not written; a field
  that is there must be of the column's type. \<open>where: { id }\<close> selects by identifier.
  Every update that succeeds also sets the row's update time to the time of the call.
\<close>

fun write_text :: "jsval \<Rightarrow> (string \<Rightarrow> string) option" where
  "write_text JUndefined = Some (\<lambda>old. old)"
| "write_text (JStr s) = (if text_ok s then Some (\<lambda>old. s) else None)"
| "write_text v = None"

fun write_bool :: "jsval \<Rightarrow> (bool \<Rightarrow> bool) option" where
  "write_bool JUndefined = Some (\<lambda>old. old)"
| "write_bool (JBool b) = Some (\<lambda>old. b)"
| "write_bool v = None"

definition note_patch :: "nat \<Rightarrow> note_data \<Rightarrow> (Note \<Rightarrow> Note) option" where
  "note_patch now d =
     (case (write_text (nd_title d), write_text (nd_content d),
            write_text (nd_color d), write_bool (nd_isPinned d)) of
        (Some t, Some c, Some col, Some p) \<Rightarrow>
          Some (\<lambda>r. r\<lparr>n_title := t (n_title r), n_content := c (n_content r),
                       n_color := col (n_color r), n_isPinned := p (n_isPinned r),
                       n_updatedAt := now\<rparr>)
      | _ \<Rightarrow> None)"

definition note_update ::
  "ident \<Rightarrow> nat \<Rightarrow> note_data \<Rightarrow> Note list \<Rightarrow> (Note \<times> Note list) option" where
  "note_update i now d table =
     (case (find (\<lambda>r. n_id r = i) table, note_patch now d) of
        (Some r, Some f) \<Rightarrow> Some (f r, map (\<lambda>x. if n_id x = i then f x else x) table)
      | _ \<Rightarrow> None)"


text \<open>
  The handlers of \<open>notesController.js\<close>; \<open>uid\<close> is \<open>req.userId\<close> and \<open>now\<close> the time
  of the call.
\<close>

definition getNotes :: "ident \<Rightarrow> Note list \<Rightarrow> Note list response" where
  "getNotes uid table =
     Inr (orderBy [desc n_isPinned, desc n_createdAt] (filter (\<lambda>r. n_userId r = uid) table))"

definition getNoteById :: "ident \<Rightarrow> ident \<Rightarrow> Note list \<Rightarrow> Note response" where
  "getNoteById uid i table =
     (case find (\<lambda>r. n_id r = i \<and> n_userId r = uid) table of
        None \<Rightarrow> Inl (404, ''Note not found'')
      | Some r \<Rightarrow> Inr r)"

definition createNote :: "ident \<Rightarrow> nat \<Rightarrow> obj \<Rightarrow> Note list \<Rightarrow> Note response \<times> Note list" where
  "createNote uid now body table =
     (let title = get body ''title''; content = get body ''content'';
          color = get body ''color''; isPinned = get body ''isPinned''
      in if \<not> truthy title \<or> \<not> truthy content
         then (Inl (400, ''Title and content are required''), table)
         else (case note_create uid now
                      \<lparr>nd_title = title, nd_content = content,
                       nd_color = js_or color (JStr ''#ffffff''),
                       nd_isPinned = js_or isPinned (JBool False)\<rparr> table of
                 None \<Rightarrow> (Inl (500, ''Failed to create note''), table)
               | Some (r, table') \<Rightarrow> (Inr r, table')))"

text \<open>The \<open>data\<close> of \<open>updateNote\<close>: \<open>...(f !== undefined && { f })\<close> for each field.\<close>

definition note_update_data :: "obj \<Rightarrow> note_data" where
  "note_update_data body =
     \<lparr>nd_title = get body ''title'', nd_content = get body ''content'',
      nd_color = get body ''color'', nd_isPinned = get body ''isPinned''\<rparr>"

definition updateNote ::
  "ident \<Rightarrow> nat \<Rightarrow> ident \<Rightarrow> obj \<Rightarrow> Note list \<Rightarrow> Note response \<times> Note list" where
  "updateNote uid now i body table =
     (case find (\<lambda>r. n_id r = i \<and> n_userId r = uid) table of
        None \<Rightarrow> (Inl (404, ''Note not found''), table)
      | Some existingNote \<Rightarrow>
          (case note_update i now (note_update_data body) table of
             None \<Rightarrow> (Inl (500, ''Failed to update note''), table)
           | Some (r, table') \<Rightarrow> (Inr r, table')))"


text \<open>
  \<open>notes.map(note => ({ title: note.title, ... }))\<close>: the entry built for one element
  of the request's array. The element's own \<open>id\<close> is not copied.
\<close>

definition note_sync_data :: "jsval \<Rightarrow> (ident option \<times> note_data) option" where
  "note_sync_data note =
     (case (js_prop note ''title'', js_prop note ''content'',
            js_prop note ''color'', js_prop note ''isPinned'') of
        (Some title, Some content, Some color, Some isPinned) \<Rightarrow>
          Some (None, \<lparr>nd_title = title, nd_content = content,
                       nd_color = js_or color (JStr ''#ffffff''),
                       nd_isPinned = js_or isPinned (JBool False)\<rparr>)
      | _ \<Rightarrow> None)"

definition bulkCreateNotes :: "ident \<Rightarrow> nat \<Rightarrow> obj \<Rightarrow> Note list \<Rightarrow> nat response \<times> Note list" where
  "bulkCreateNotes uid now body table =
     (case get body ''notes'' of
        JArr (n # ns) \<Rightarrow>
          (case those (map note_sync_data (n # ns)) of
             None \<Rightarrow> (Inl (500, ''Failed to sync notes''), table)
           | Some notesWithUserId \<Rightarrow>
               (case note_createMany uid now notesWithUserId table of
                  None \<Rightarrow> (Inl (500, ''Failed to sync notes''), table)
                | Some (created, table') \<Rightarrow> (Inr created, table')))
      | _ \<Rightarrow> (Inl (400, ''Notes array is required''), table))"

section \<open>Server: tasks controller\<close>

text \<open>
  Modelled from the spec: the task columns of the missing schema. The description and
  the due date may be null; the priority is one of low, medium and high.
\<close>

record Task =
  t_id :: ident
  t_title :: string
  t_description :: "string option"
  t_completed :: bool
  t_priority :: string
  t_dueDate :: "nat option"
  t_userId :: ident
  t_createdAt :: nat
  t_updatedAt :: nat

text \<open>
  What the handlers pass for the due date: nothing, \<open>null\<close>, or \<open>new Date(dueDate)\<close>,
  which is a time the database stores or (\<open>DDate None\<close>) a date it rejects: an
  invalid date, or one outside the range of its timestamps. Times are counted from
  the earliest one the database stores.
\<close>

datatype date_arg = DUndefined | DNull | DDate "nat option"

record task_data =
  td_title :: jsval
  td_description :: jsval
  td_completed :: jsval
  td_priority :: jsval
  td_dueDate :: date_arg

fun as_opt_text :: "jsval \<Rightarrow> string option option" where
  "as_opt_text JNull = Some None"
| "as_opt_text (JStr s) = (if text_ok s then Some (Some s) else None)"
| "as_opt_text v = None"

fun as_priority :: "jsval \<Rightarrow> string option" where
  "as_priority (JStr s) = (if s \<in> {''low'', ''medium'', ''high''} then Some s else None)"
| "as_priority v = None"

fun as_opt_date :: "date_arg \<Rightarrow> nat option option" where
  "as_opt_date DNull = Some None"
| "as_opt_date (DDate (Some t)) = Some (Some t)"
| "as_opt_date v = None"

definition task_row :: "ident \<Rightarrow> ident \<Rightarrow> nat \<Rightarrow> task_data \<Rightarrow> Task option" where
  "task_row i uid now d =
     (case (as_text (td_title d), as_opt_text (td_description d), as_bool (td_completed d),
            as_priority (td_priority d), as_opt_date (td_dueDate d)) of
        (Some t, Some ds, Some c, Some p, Some due) \<Rightarrow>
          Some \<lparr>t_id = i, t_title = t, t_description = ds, t_completed = c, t_priority = p,
                t_dueDate = due, t_userId = uid, t_createdAt = now, t_updatedAt = now\<rparr>
      | _ \<Rightarrow> None)"


fun task_createMany ::
  "ident \<Rightarrow> nat \<Rightarrow> (ident option \<times> task_data) list \<Rightarrow> Task list \<Rightarrow> (nat \<times> Task list) option" where
  "task_createMany uid now [] table = Some (0, table)"
| "task_createMany uid now ((oid, d) # ds) table =
     (case task_row (case oid of Some i \<Rightarrow> i | None \<Rightarrow> freshId (map t_id table)) uid now d of
        None \<Rightarrow> None
      | Some r \<Rightarrow>
          (if t_id r \<in> set (map t_id table) then task_createMany uid now ds table
           else (case task_createMany uid now ds (table @ [r]) of
                   None \<Rightarrow> None
                 | Some (c, t') \<Rightarrow> Some (Suc c, t'))))"

fun write_opt_text :: "jsval \<Rightarrow> (string option \<Rightarrow> string option) option" where
  "write_opt_text JUndefined = Some (\<lambda>old. old)"
| "write_opt_text JNull = Some (\<lambda>old. None)"
| "write_opt_text (JStr s) = (if text_ok s then Some (\<lambda>old. Some s) else None)"
| "write_opt_text v = None"

fun write_priority :: "jsval \<Rightarrow> (string \<Rightarrow> string) option" where
  "write_priority JUndefined = Some (\<lambda>old. old)"
| "write_priority v = (case as_priority v of None \<Rightarrow> None | Some p \<Rightarrow> Some (\<lambda>old. p))"

fun write_opt_date :: "date_arg \<Rightarrow> (nat option \<Rightarrow> nat option) option" where
  "write_opt_date DUndefined = Some (\<lambda>old. old)"
| "write_opt_date DNull = Some (\<lambda>old. None)"
| "write_opt_date (DDate (Some t)) = Some (\<lambda>old. Some t)"
| "write_opt_date (DDate None) = None"

definition task_patch :: "nat \<Rightarrow> task_data \<Rightarrow> (Task \<Rightarrow> Task) option" where
  "task_patch now d =
     (case (write_text (td_title d), write_opt_text (td_description d),
            write_bool (td_completed d), write_priority (td_priority d),
            write_opt_date (td_dueDate d)) of
        (Some t, Some ds, Some c, Some p, Some due) \<Rightarrow>
          Some (\<lambda>r. r\<lparr>t_title := t (t_title r), t_description := ds (t_description r),
                       t_completed := c (t_completed r), t_priority := p (t_priority r),
                       t_dueDate := due (t_dueDate r), t_updatedAt := now\<rparr>)
      | _ \<Rightarrow> None)"

definition task_update ::
  "ident \<Rightarrow> nat \<Rightarrow> task_data \<Rightarrow> Task list \<Rightarrow> (Task \<times> Task list) option" where
  "task_update i now d table =
     (case (find (\<lambda>r. t_id r = i) table, task_patch now d) of
        (Some r, Some f) \<Rightarrow> Some (f r, map (\<lambda>x. if t_id x = i then f x else x) table)
      | _ \<Rightarrow> None)"


text \<open>
  An ascending sort key on a column that may be null. The database named by the
  repository's setup files is PostgreSQL, which puts the nulls last.
\<close>

definition asc_nulls_last :: "('a \<Rightarrow> 'k::linorder option) \<Rightarrow> 'a \<Rightarrow> 'a \<Rightarrow> ord" where
  "asc_nulls_last f a b =
     (case (f a, f b) of
        (None, None) \<Rightarrow> Eq
      | (None, Some y) \<Rightarrow> Gt
      | (Some x, None) \<Rightarrow> Lt
      | (Some x, Some y) \<Rightarrow> (if x < y then Lt else if x = y then Eq else Gt))"

text \<open>
  The handlers of the tasks controller. \<open>newDate\<close> is JavaScript's \<open>new Date(v)\<close> as
  the database takes it: the time a value denotes, or \<open>None\<close> for a date the database
  rejects.
\<close>

definition getTasks :: "ident \<Rightarrow> Task list \<Rightarrow> Task list response" where
  "getTasks uid table =
     Inr (orderBy [asc t_completed, asc_nulls_last t_dueDate, desc t_createdAt]
            (filter (\<lambda>r. t_userId r = uid) table))"

definition getTaskById :: "ident \<Rightarrow> ident \<Rightarrow> Task list \<Rightarrow> Task response" where
  "getTaskById uid i table =
     (case find (\<lambda>r. t_id r = i \<and> t_userId r = uid) table of
        None \<Rightarrow> Inl (404, ''Task not found'')
      | Some r \<Rightarrow> Inr r)"


text \<open>
  The \<open>data\<close> of \<open>updateTask\<close>: \<open>...(f !== undefined && { f })\<close> for each field, and for
  the due date \<open>dueDate ? new Date(dueDate) : null\<close> when the body has one.
\<close>

definition task_update_data :: "(jsval \<Rightarrow> nat option) \<Rightarrow> obj \<Rightarrow> task_data" where
  "task_update_data newDate body =
     \<lparr>td_title = get body ''title'',
      td_description = get body ''description'',
      td_completed = get body ''completed'',
      td_priority = get body ''priority'',
      td_dueDate = (if get body ''dueDate'' = JUndefined then DUndefined
                    else if truthy (get body ''dueDate'') then DDate (newDate (get body ''dueDate''))
                    else DNull)\<rparr>"

definition updateTask ::
  "(jsval \<Rightarrow> nat option) \<Rightarrow> ident \<Rightarrow> nat \<Rightarrow> ident \<Rightarrow> obj \<Rightarrow> Task list \<Rightarrow>
   Task response \<times> Task list" where
  "updateTask newDate uid now i body table =
     (case find (\<lambda>r. t_id r = i \<and> t_userId r = uid) table of
        None \<Rightarrow> (Inl (404, ''Task not found''), table)
      | Some existingTask \<Rightarrow>
          (case task_update i now (task_update_data newDate body) table of
             None \<Rightarrow> (Inl (500, ''Failed to update task''), table)
           | Some (r, table') \<Rightarrow> (Inr r, table')))"


definition task_sync_data :: "(jsval \<Rightarrow> nat option) \<Rightarrow> jsval \<Rightarrow> (ident option \<times> task_data) option" where
  "task_sync_data newDate task =
     (case (js_prop task ''title'', js_prop task ''description'', js_prop task ''completed'',
            js_prop task ''priority'', js_prop task ''dueDate'') of
        (Some title, Some description, Some completed, Some priority, Some dueDate) \<Rightarrow>
          Some (None, \<lparr>td_title = title,
                       td_description = js_or description JNull,
                       td_completed = js_or completed (JBool False),
                       td_priority = js_or priority (JStr ''medium''),
                       td_dueDate = (if truthy dueDate then DDate (newDate dueDate) else DNull)\<rparr>)
      | _ \<Rightarrow> None)"

definition bulkCreateTasks ::
  "(jsval \<Rightarrow> nat option) \<Rightarrow> ident \<Rightarrow> nat \<Rightarrow> obj \<Rightarrow> Task list \<Rightarrow> nat response \<times> Task list" where
  "bulkCreateTasks newDate uid now body table =
     (case get body ''tasks'' of
        JArr (t # ts) \<Rightarrow>
          (case those (map (task_sync_data newDate) (t # ts)) of
             None \<Rightarrow> (Inl (500, ''Failed to sync tasks''), table)
           | Some tasksWithUserId \<Rightarrow>
               (case task_createMany uid now tasksWithUserId table of
                  None \<Rightarrow> (Inl (500, ''Failed to sync tasks''), table)
                | Some (created, table') \<Rightarrow> (Inr created, table')))
      | _ \<Rightarrow> (Inl (400, ''Tasks array is required''), table))"

section \<open>Server: ideas controller\<close>

text \<open>
  Modelled from the spec: the idea columns of the missing schema; the tags are an
  ordered list of strings.
\<close>

record Idea =
  i_id :: ident
  i_title :: string
  i_description :: string
  i_category :: string
  i_tags :: "string list"
  i_userId :: ident
  i_createdAt :: nat
  i_updatedAt :: nat

record idea_data =
  id_title :: jsval
  id_description :: jsval
  id_category :: jsval
  id_tags :: jsval

fun as_texts :: "jsval \<Rightarrow> string list option" where
  "as_texts (JArr xs) = those (map as_text xs)"
| "as_texts v = None"

definition idea_row :: "ident \<Rightarrow> ident \<Rightarrow> nat \<Rightarrow> idea_data \<Rightarrow> Idea option" where
  "idea_row i uid now d =
     (case (as_text (id_title d), as_text (id_description d),
            as_text (id_category d), as_texts (id_tags d)) of
        (Some t, Some ds, Some c, Some tags) \<Rightarrow>
          Some \<lparr>i_id = i, i_title = t, i_description = ds, i_category = c, i_tags = tags,
                i_userId = uid, i_createdAt = now, i_updatedAt = now\<rparr>
      | _ \<Rightarrow> None)"

definition idea_create :: "ident \<Rightarrow> nat \<Rightarrow> idea_data \<Rightarrow> Idea list \<Rightarrow> (Idea \<times> Idea list) option" where
  "idea_create uid now d table =
     (case idea_row (freshId (map i_id table)) uid now d of
        None \<Rightarrow> None
      | Some r \<Rightarrow> Some (r, table @ [r]))"

fun idea_createMany ::
  "ident \<Rightarrow> nat \<Rightarrow> (ident option \<times> idea_data) list \<Rightarrow> Idea list \<Rightarrow> (nat \<times> Idea list) option" where
  "idea_createMany uid now [] table = Some (0, table)"
| "idea_createMany uid now ((oid, d) # ds) table =
     (case idea_row (case oid of Some i \<Rightarrow> i | None \<Rightarrow> freshId (map i_id table)) uid now d of
        None \<Rightarrow> None
      | Some r \<Rightarrow>
          (if i_id r \<in> set (map i_id table) then idea_createMany uid now ds table
           else (case idea_createMany uid now ds (table @ [r]) of
                   None \<Rightarrow> None
                 | Some (c, t') \<Rightarrow> Some (Suc c, t'))))"

fun write_texts :: "jsval \<Rightarrow> (string list \<Rightarrow> string list) option" where
  "write_texts JUndefined = Some (\<lambda>old. old)"
| "write_texts v = (case as_texts v of None \<Rightarrow> None | Some xs \<Rightarrow> Some (\<lambda>old. xs))"

definition idea_patch :: "nat \<Rightarrow> idea_data \<Rightarrow> (Idea \<Rightarrow> Idea) option" where
  "idea_patch now d =
     (case (write_text (id_title d), write_text (id_description d),
            write_text (id_category d), write_texts (id_tags d)) of
        (Some t, Some ds, Some c, Some tags) \<Rightarrow>
          Some (\<lambda>r. r\<lparr>i_title := t (i_title r), i_description := ds (i_description r),
                       i_category := c (i_category r), i_tags := tags (i_tags r),
                       i_updatedAt := now\<rparr>)
      | _ \<Rightarrow> None)"

definition idea_update ::
  "ident \<Rightarrow> nat \<Rightarrow> idea_data \<Rightarrow> Idea list \<Rightarrow> (Idea \<times> Idea list) option" where
  "idea_update i now d table =
     (case (find (\<lambda>r. i_id r = i) table, idea_patch now d) of
        (Some r, Some f) \<Rightarrow> Some (f r, map (\<lambda>x. if i_id x = i then f x else x) table)
      | _ \<Rightarrow> None)"


text \<open>
  The filters of \<open>searchIdeas\<close>. \<open>contains\<close> with \<open>mode: 'insensitive'\<close> is the
  database's case-insensitive pattern match, \<open>text ILIKE pattern\<close>, on the pattern
  made of \<open>%\<close>, the query as it is and \<open>%\<close>; the query is not escaped, so an
  underscore, a percent sign and a backslash in it act as pattern characters. The
  match belongs to the database: the handler takes it as \<open>ilike pattern text\<close>.
  \<open>has\<close> on the list column is membership of the value itself.
\<close>

definition contains_pattern :: "string \<Rightarrow> string" where
  "contains_pattern q = CHR ''%'' # q @ [CHR ''%'']"

definition has :: "string list \<Rightarrow> string \<Rightarrow> bool" where
  "has xs q = (q \<in> set xs)"

text \<open>
  PostgreSQL's pattern match on ASCII text, for running the handler: \<open>%\<close> stands for
  any sequence of characters, \<open>_\<close> for any one character, a backslash makes the
  character after it stand for itself, and a pattern that ends in a lone backslash
  is an error (never the case for a pattern that ends in the \<open>%\<close> put there by
  \<open>contains\<close>). \<open>ILIKE\<close> puts the pattern and the text in lower case first.
\<close>

datatype like_token = AnySeq | AnyOne | Lit char

fun like_tokens :: "string \<Rightarrow> like_token list option" where
  "like_tokens [] = Some []"
| "like_tokens (c # cs) =
     (if c = CHR ''%'' then map_option (Cons AnySeq) (like_tokens cs)
      else if c = CHR ''_'' then map_option (Cons AnyOne) (like_tokens cs)
      else if c = CHR 0x5C
      then (case cs of
              [] \<Rightarrow> None
            | d # ds \<Rightarrow> map_option (Cons (Lit d)) (like_tokens ds))
      else map_option (Cons (Lit c)) (like_tokens cs))"

fun like_match :: "like_token list \<Rightarrow> string \<Rightarrow> bool" where
  "like_match [] s = (s = [])"
| "like_match (AnySeq # ts) s =
     (like_match ts s \<or> (case s of [] \<Rightarrow> False | c # cs \<Rightarrow> like_match (AnySeq # ts) cs))"
| "like_match (AnyOne # ts) s = (case s of [] \<Rightarrow> False | c # cs \<Rightarrow> like_match ts cs)"
| "like_match (Lit d # ts) s = (case s of [] \<Rightarrow> False | c # cs \<Rightarrow> c = d \<and> like_match ts cs)"

definition lower :: "char \<Rightarrow> char" where
  "lower c = (let n = (of_char c :: nat) in if 65 \<le> n \<and> n \<le> 90 then char_of (n + 32) else c)"

definition ascii_ilike :: "string \<Rightarrow> string \<Rightarrow> bool" where
  "ascii_ilike pattern s =
     (case like_tokens (map lower pattern) of
        None \<Rightarrow> False
      | Some ts \<Rightarrow> like_match ts (map lower s))"

text \<open>
  The handlers of the ideas controller. \<open>category\<close> and \<open>query\<close> are the values of the
  query-string parameters of the request: \<open>undefined\<close> when the URL has none, a string,
  or an array or object when the parameter is repeated or bracketed.
\<close>

definition getIdeas :: "ident \<Rightarrow> jsval \<Rightarrow> Idea list \<Rightarrow> Idea list response" where
  "getIdeas uid category table =
     (if \<not> truthy category
      then Inr (orderBy [desc i_createdAt] (filter (\<lambda>r. i_userId r = uid) table))
      else (case as_text category of
              None \<Rightarrow> Inl (500, ''Failed to fetch ideas'')
            | Some c \<Rightarrow>
                Inr (orderBy [desc i_createdAt]
                       (filter (\<lambda>r. i_userId r = uid \<and> i_category r = c) table))))"

definition getIdeaById :: "ident \<Rightarrow> ident \<Rightarrow> Idea list \<Rightarrow> Idea response" where
  "getIdeaById uid i table =
     (case find (\<lambda>r. i_id r = i \<and> i_userId r = uid) table of
        None \<Rightarrow> Inl (404, ''Idea not found'')
      | Some r \<Rightarrow> Inr r)"

definition createIdea :: "ident \<Rightarrow> nat \<Rightarrow> obj \<Rightarrow> Idea list \<Rightarrow> Idea response \<times> Idea list" where
  "createIdea uid now body table =
     (let title = get body ''title''; description = get body ''description'';
          category = get body ''category''; tags = get body ''tags''
      in if \<not> truthy title \<or> \<not> truthy description
         then (Inl (400, ''Title and description are required''), table)
         else (case idea_create uid now
                      \<lparr>id_title = title, id_description = description,
                       id_category = js_or category (JStr ''general''),
                       id_tags = (case tags of JArr xs \<Rightarrow> tags | _ \<Rightarrow> JArr [])\<rparr> table of
                 None \<Rightarrow> (Inl (500, ''Failed to create idea''), table)
               | Some (r, table') \<Rightarrow> (Inr r, table')))"

text \<open>
  The \<open>data\<close> of \<open>updateIdea\<close>; the tags, when the body has any, are
  \<open>Array.isArray(tags) ? tags : []\<close>.
\<close>

definition idea_update_data :: "obj \<Rightarrow> idea_data" where
  "idea_update_data body =
     \<lparr>id_title = get body ''title'',
      id_description = get body ''description'',
      id_category = get body ''category'',
      id_tags = (case get body ''tags'' of
                   JUndefined \<Rightarrow> JUndefined
                 | JArr xs \<Rightarrow> JArr xs
                 | _ \<Rightarrow> JArr [])\<rparr>"

definition updateIdea ::
  "ident \<Rightarrow> nat \<Rightarrow> ident \<Rightarrow> obj \<Rightarrow> Idea list \<Rightarrow> Idea response \<times> Idea list" where
  "updateIdea uid now i body table =
     (case find (\<lambda>r. i_id r = i \<and> i_userId r = uid) table of
        None \<Rightarrow> (Inl (404, ''Idea not found''), table)
      | Some existingIdea \<Rightarrow>
          (case idea_update i now (idea_update_data body) table of
             None \<Rightarrow> (Inl (500, ''Failed to update idea''), table)
           | Some (r, table') \<Rightarrow> (Inr r, table')))"


definition idea_sync_data :: "jsval \<Rightarrow> (ident option \<times> idea_data) option" where
  "idea_sync_data idea =
     (case (js_prop idea ''title'', js_prop idea ''description'',
            js_prop idea ''category'', js_prop idea ''tags'') of
        (Some title, Some description, Some category, Some tags) \<Rightarrow>
          Some (None, \<lparr>id_title = title, id_description = description,
                       id_category = js_or category (JStr ''general''),
                       id_tags = (case tags of JArr xs \<Rightarrow> tags | _ \<Rightarrow> JArr [])\<rparr>)
      | _ \<Rightarrow> None)"

definition bulkCreateIdeas :: "ident \<Rightarrow> nat \<Rightarrow> obj \<Rightarrow> Idea list \<Rightarrow> nat response \<times> Idea list" where
  "bulkCreateIdeas uid now body table =
     (case get body ''ideas'' of
        JArr (x # xs) \<Rightarrow>
          (case those (map idea_sync_data (x # xs)) of
             None \<Rightarrow> (Inl (500, ''Failed to sync ideas''), table)
           | Some ideasWithUserId \<Rightarrow>
               (case idea_createMany uid now ideasWithUserId table of
                  None \<Rightarrow> (Inl (500, ''Failed to sync ideas''), table)
                | Some (created, table') \<Rightarrow> (Inr created, table')))
      | _ \<Rightarrow> (Inl (400, ''Ideas array is required''), table))"

definition searchIdeas ::
  "(string \<Rightarrow> string \<Rightarrow> bool) \<Rightarrow> ident \<Rightarrow> jsval \<Rightarrow> Idea list \<Rightarrow> Idea list response" where
  "searchIdeas ilike uid query table =
     (if \<not> truthy query
      then Inl (400, ''Search query is required'')
      else (case as_text query of
              None \<Rightarrow> Inl (500, ''Failed to search ideas'')
            | Some q \<Rightarrow>
                Inr (orderBy [desc i_createdAt]
                       (filter (\<lambda>r. i_userId r = uid \<and>
                                     (ilike (contains_pattern q) (i_title r) \<or>
                                      ilike (contains_pattern q) (i_description r) \<or>
                                      has (i_tags r) q)) table))))"

section \<open>Server: auth controller, login\<close>

text \<open>
  Modelled from the spec: the user columns of the missing schema, as \<open>login\<close> reads
  them. The email is unique; \<open>u_password\<close> is the stored hash.
\<close>

record User =
  u_id :: ident
  u_email :: string
  u_password :: string
  u_name :: "string option"

text \<open>
  \<open>login\<close>. \<open>compare\<close> is \<open>bcrypt.compare(password, hash)\<close> and \<open>sign\<close> is \<open>jwt.sign\<close> on
  the user's identifier and email, both from libraries. \<open>findUnique\<close> throws when the
  email is not text the database takes, and \<open>bcrypt.compare\<close> when the password is not
  a string; the handler catches both and answers 500.
\<close>

definition login ::
  "(string \<Rightarrow> string \<Rightarrow> bool) \<Rightarrow> (ident \<Rightarrow> string \<Rightarrow> string) \<Rightarrow> obj \<Rightarrow> User list \<Rightarrow>
   ((ident \<times> string \<times> string option) \<times> string) response" where
  "login compare sign body users =
     (let email = get body ''email''; password = get body ''password''
      in if \<not> truthy email \<or> \<not> truthy password
         then Inl (400, ''Email and password are required'')
         else (case as_text email of
                 None \<Rightarrow> Inl (500, ''Failed to login'')
               | Some e \<Rightarrow>
                   (case find (\<lambda>u. u_email u = e) users of
                      None \<Rightarrow> Inl (401, ''Invalid email or password'')
                    | Some user \<Rightarrow>
                        (case as_string password of
                           None \<Rightarrow> Inl (500, ''Failed to login'')
                         | Some p \<Rightarrow>
                             (if \<not> compare p (u_password user)
                              then Inl (401, ''Invalid email or password'')
                              else Inr ((u_id user, u_email user, u_name user),
                                        sign (u_id user) (u_email user)))))))"

section \<open>Client: the stores\<close>

text \<open>
  The three stores hold the same state: the list of records (the field \<open>notes\<close>,
  \<open>tasks\<close> or \<open>ideas\<close> of the source, here \<open>records\<close>), \<open>loading\<close> and \<open>error\<close>. The
  \<open>persist\<close> middleware writes \<open>partialize(state)\<close>, the list, to the store's
  localStorage key after every \<open>set\<close>; \<open>persisted\<close> is what the key holds. The records
  of a list are objects.
\<close>

record store =
  records :: "obj list"
  loading :: bool
  error :: jsval
  persisted :: "obj list"

definition initial_store :: store where
  "initial_store = \<lparr>records = [], loading = False, error = JNull, persisted = []\<rparr>"

definition partialize :: "store \<Rightarrow> obj list" where
  "partialize state = records state"

definition set_state :: "(store \<Rightarrow> store) \<Rightarrow> store \<Rightarrow> store" where
  "set_state f state = (let state' = f state in state'\<lparr>persisted := partialize state'\<rparr>)"

text \<open>
  A call through the axios instance of \<open>lib/api.js\<close> either resolves, with the object
  its caller reads from \<open>response.data\<close> (the record for a store's create or update),
  or rejects, with \<open>error.response?.status\<close> and \<open>error.response?.data?.error\<close>.
\<close>

datatype request = GET string | POST string obj | PUT string obj | DELETE string

datatype api_result = Resolved obj | Rejected "nat option" jsval

text \<open>What a store action returns: \<open>{ success: true, ... }\<close> or \<open>{ success: false, error }\<close>.\<close>

datatype call_result = Success "jsval" | Failure jsval

text \<open>
  Every action returns its result and the states the store goes through, one per
  \<open>set\<close>, in order. \<open>newId\<close> is what \<open>generateId()\<close> returns and \<open>t1\<close>, \<open>t2\<close>, \<open>t\<close> what
  \<open>new Date().toISOString()\<close> returns where the action calls it.
\<close>

definition useNotesStore_addNote ::
  "obj \<Rightarrow> bool \<Rightarrow> string \<Rightarrow> string \<Rightarrow> string \<Rightarrow> (request \<Rightarrow> api_result) \<Rightarrow> store \<Rightarrow>
   call_result \<times> store list" where
  "useNotesStore_addNote noteData isAuthenticated newId t1 t2 api state =
     (if \<not> isAuthenticated
      then (let newNote = assign ''updatedAt'' (JStr t2)
                            (assign ''createdAt'' (JStr t1)
                               (spread noteData [(''id'', JStr newId)]))
            in (Success (JObj newNote),
                [set_state (\<lambda>st. st\<lparr>records := newNote # records st\<rparr>) state]))
      else (let s1 = set_state (\<lambda>st. st\<lparr>loading := True, error := JNull\<rparr>) state
            in case api (POST ''/notes'' noteData) of
                 Resolved newNote \<Rightarrow>
                   (Success (JObj newNote),
                    [s1, set_state (\<lambda>st. st\<lparr>records := newNote # records st, loading := False\<rparr>) s1])
               | Rejected status e \<Rightarrow>
                   (let message = js_or e (JStr ''Failed to create note'')
                    in (Failure message,
                        [s1, set_state (\<lambda>st. st\<lparr>error := message, loading := False\<rparr>) s1]))))"

definition useNotesStore_updateNote ::
  "ident \<Rightarrow> obj \<Rightarrow> bool \<Rightarrow> string \<Rightarrow> (request \<Rightarrow> api_result) \<Rightarrow> store \<Rightarrow>
   call_result \<times> store list" where
  "useNotesStore_updateNote i updates isAuthenticated t api state =
     (if \<not> isAuthenticated
      then (Success JUndefined,
            [set_state (\<lambda>st. st\<lparr>records :=
               map (\<lambda>note. if get note ''id'' = JStr i
                            then assign ''updatedAt'' (JStr t) (spread updates note)
                            else note) (records st)\<rparr>) state])
      else (let s1 = set_state (\<lambda>st. st\<lparr>loading := True, error := JNull\<rparr>) state
            in case api (PUT (''/notes/'' @ i) updates) of
                 Resolved updatedNote \<Rightarrow>
                   (Success (JObj updatedNote),
                    [s1, set_state (\<lambda>st. st\<lparr>records :=
                           map (\<lambda>note. if get note ''id'' = JStr i then updatedNote else note)
                             (records st),
                           loading := False\<rparr>) s1])
               | Rejected status e \<Rightarrow>
                   (let message = js_or e (JStr ''Failed to update note'')
                    in (Failure message,
                        [s1, set_state (\<lambda>st. st\<lparr>error := message, loading := False\<rparr>) s1]))))"

definition useNotesStore_deleteNote ::
  "ident \<Rightarrow> bool \<Rightarrow> (request \<Rightarrow> api_result) \<Rightarrow> store \<Rightarrow> call_result \<times> store list" where
  "useNotesStore_deleteNote i isAuthenticated api state =
     (if \<not> isAuthenticated
      then (Success JUndefined,
            [set_state (\<lambda>st. st\<lparr>records :=
               filter (\<lambda>note. get note ''id'' \<noteq> JStr i) (records st)\<rparr>) state])
      else (let s1 = set_state (\<lambda>st. st\<lparr>loading := True, error := JNull\<rparr>) state
            in case api (DELETE (''/notes/'' @ i)) of
                 Resolved d \<Rightarrow>
                   (Success JUndefined,
                    [s1, set_state (\<lambda>st. st\<lparr>records :=
                           filter (\<lambda>note. get note ''id'' \<noteq> JStr i) (records st),
                           loading := False\<rparr>) s1])
               | Rejected status e \<Rightarrow>
                   (let message = js_or e (JStr ''Failed to delete note'')
                    in (Failure message,
                        [s1, set_state (\<lambda>st. st\<lparr>error := message, loading := False\<rparr>) s1]))))"

definition useNotesStore_clearNotes :: "store \<Rightarrow> store" where
  "useNotesStore_clearNotes state = set_state (\<lambda>st. st\<lparr>records := []\<rparr>) state"

definition useNotesStore_getNotesForSync :: "store \<Rightarrow> obj list" where
  "useNotesStore_getNotesForSync state = map (without ''id'') (records state)"

definition useTasksStore_addTask ::
  "obj \<Rightarrow> bool \<Rightarrow> string \<Rightarrow> string \<Rightarrow> string \<Rightarrow> (request \<Rightarrow> api_result) \<Rightarrow> store \<Rightarrow>
   call_result \<times> store list" where
  "useTasksStore_addTask taskData isAuthenticated newId t1 t2 api state =
     (if \<not> isAuthenticated
      then (let newTask = assign ''updatedAt'' (JStr t2)
                            (assign ''createdAt'' (JStr t1)
                               (assign ''completed'' (JBool False)
                                  (spread taskData [(''id'', JStr newId)])))
            in (Success (JObj newTask),
                [set_state (\<lambda>st. st\<lparr>records := newTask # records st\<rparr>) state]))
      else (let s1 = set_state (\<lambda>st. st\<lparr>loading := True, error := JNull\<rparr>) state
            in case api (POST ''/tasks'' taskData) of
                 Resolved newTask \<Rightarrow>
                   (Success (JObj newTask),
                    [s1, set_state (\<lambda>st. st\<lparr>records := newTask # records st, loading := False\<rparr>) s1])
               | Rejected status e \<Rightarrow>
                   (let message = js_or e (JStr ''Failed to create task'')
                    in (Failure message,
                        [s1, set_state (\<lambda>st. st\<lparr>error := message, loading := False\<rparr>) s1]))))"

definition useTasksStore_updateTask ::
  "ident \<Rightarrow> obj \<Rightarrow> bool \<Rightarrow> string \<Rightarrow> (request \<Rightarrow> api_result) \<Rightarrow> store \<Rightarrow>
   call_result \<times> store list" where
  "useTasksStore_updateTask i updates isAuthenticated t api state =
     (if \<not> isAuthenticated
      then (Success JUndefined,
            [set_state (\<lambda>st. st\<lparr>records :=
               map (\<lambda>task. if get task ''id'' = JStr i
                            then assign ''updatedAt'' (JStr t) (spread updates task)
                            else task) (records st)\<rparr>) state])
      else (let s1 = set_state (\<lambda>st. st\<lparr>loading := True, error := JNull\<rparr>) state
            in case api (PUT (''/tasks/'' @ i) updates) of
                 Resolved updatedTask \<Rightarrow>
                   (Success (JObj updatedTask),
                    [s1, set_state (\<lambda>st. st\<lparr>records :=
                           map (\<lambda>task. if get task ''id'' = JStr i then updatedTask else task)
                             (records st),
                           loading := False\<rparr>) s1])
               | Rejected status e \<Rightarrow>
                   (let message = js_or e (JStr ''Failed to update task'')
                    in (Failure message,
                        [s1, set_state (\<lambda>st. st\<lparr>error := message, loading := False\<rparr>) s1]))))"

definition useTasksStore_toggleTask ::
  "ident \<Rightarrow> bool \<Rightarrow> string \<Rightarrow> (request \<Rightarrow> api_result) \<Rightarrow> store \<Rightarrow> call_result \<times> store list" where
  "useTasksStore_toggleTask i isAuthenticated t api state =
     (case find (\<lambda>task. get task ''id'' = JStr i) (records state) of
        None \<Rightarrow> (Failure (JStr ''Task not found''), [])
      | Some task \<Rightarrow>
          useTasksStore_updateTask i [(''completed'', JBool (\<not> truthy (get task ''completed'')))]
            isAuthenticated t api state)"

definition useTasksStore_deleteTask ::
  "ident \<Rightarrow> bool \<Rightarrow> (request \<Rightarrow> api_result) \<Rightarrow> store \<Rightarrow> call_result \<times> store list" where
  "useTasksStore_deleteTask i isAuthenticated api state =
     (if \<not> isAuthenticated
      then (Success JUndefined,
            [set_state (\<lambda>st. st\<lparr>records :=
               filter (\<lambda>task. get task ''id'' \<noteq> JStr i) (records st)\<rparr>) state])
      else (let s1 = set_state (\<lambda>st. st\<lparr>loading := True, error := JNull\<rparr>) state
            in case api (DELETE (''/tasks/'' @ i)) of
                 Resolved d \<Rightarrow>
                   (Success JUndefined,
                    [s1, set_state (\<lambda>st. st\<lparr>records :=
                           filter (\<lambda>task. get task ''id'' \<noteq> JStr i) (records st),
                           loading := False\<rparr>) s1])
               | Rejected status e \<Rightarrow>
                   (let message = js_or e (JStr ''Failed to delete task'')
                    in (Failure message,
                        [s1, set_state (\<lambda>st. st\<lparr>error := message, loading := False\<rparr>) s1]))))"

definition useTasksStore_clearTasks :: "store \<Rightarrow> store" where
  "useTasksStore_clearTasks state = set_state (\<lambda>st. st\<lparr>records := []\<rparr>) state"

definition useTasksStore_getTasksForSync :: "store \<Rightarrow> obj list" where
  "useTasksStore_getTasksForSync state = map (without ''id'') (records state)"

definition useIdeasStore_addIdea ::
  "obj \<Rightarrow> bool \<Rightarrow> string \<Rightarrow> string \<Rightarrow> string \<Rightarrow> (request \<Rightarrow> api_result) \<Rightarrow> store \<Rightarrow>
   call_result \<times> store list" where
  "useIdeasStore_addIdea ideaData isAuthenticated newId t1 t2 api state =
     (if \<not> isAuthenticated
      then (let newIdea = assign ''updatedAt'' (JStr t2)
                            (assign ''createdAt'' (JStr t1)
                               (assign ''category'' (js_or (get ideaData ''category'') (JStr ''general''))
                                  (assign ''tags'' (js_or (get ideaData ''tags'') (JArr []))
                                     (spread ideaData [(''id'', JStr newId)]))))
            in (Success (JObj newIdea),
                [set_state (\<lambda>st. st\<lparr>records := newIdea # records st\<rparr>) state]))
      else (let s1 = set_state (\<lambda>st. st\<lparr>loading := True, error := JNull\<rparr>) state
            in case api (POST ''/ideas'' ideaData) of
                 Resolved newIdea \<Rightarrow>
                   (Success (JObj newIdea),
                    [s1, set_state (\<lambda>st. st\<lparr>records := newIdea # records st, loading := False\<rparr>) s1])
               | Rejected status e \<Rightarrow>
                   (let message = js_or e (JStr ''Failed to create idea'')
                    in (Failure message,
                        [s1, set_state (\<lambda>st. st\<lparr>error := message, loading := False\<rparr>) s1]))))"

definition useIdeasStore_updateIdea ::
  "ident \<Rightarrow> obj \<Rightarrow> bool \<Rightarrow> string \<Rightarrow> (request \<Rightarrow> api_result) \<Rightarrow> store \<Rightarrow>
   call_result \<times> store list" where
  "useIdeasStore_updateIdea i updates isAuthenticated t api state =
     (if \<not> isAuthenticated
      then (Success JUndefined,
            [set_state (\<lambda>st. st\<lparr>records :=
               map (\<lambda>idea. if get idea ''id'' = JStr i
                            then assign ''updatedAt'' (JStr t) (spread updates idea)
                            else idea) (records st)\<rparr>) state])
      else (let s1 = set_state (\<lambda>st. st\<lparr>loading := True, error := JNull\<rparr>) state
            in case api (PUT (''/ideas/'' @ i) updates) of
                 Resolved updatedIdea \<Rightarrow>
                   (Success (JObj updatedIdea),
                    [s1, set_state (\<lambda>st. st\<lparr>records :=
                           map (\<lambda>idea. if get idea ''id'' = JStr i then updatedIdea else idea)
                             (records st),
                           loading := False\<rparr>) s1])
               | Rejected status e \<Rightarrow>
                   (let message = js_or e (JStr ''Failed to update idea'')
                    in (Failure message,
                        [s1, set_state (\<lambda>st. st\<lparr>error := message, loading := False\<rparr>) s1]))))"

definition useIdeasStore_deleteIdea ::
  "ident \<Rightarrow> bool \<Rightarrow> (request \<Rightarrow> api_result) \<Rightarrow> store \<Rightarrow> call_result \<times> store list" where
  "useIdeasStore_deleteIdea i isAuthenticated api state =
     (if \<not> isAuthenticated
      then (Success JUndefined,
            [set_state (\<lambda>st. st\<lparr>records :=
               filter (\<lambda>idea. get idea ''id'' \<noteq> JStr i) (records st)\<rparr>) state])
      else (let s1 = set_state (\<lambda>st. st\<lparr>loading := True, error := JNull\<rparr>) state
            in case api (DELETE (''/ideas/'' @ i)) of
                 Resolved d \<Rightarrow>
                   (Success JUndefined,
                    [s1, set_state (\<lambda>st. st\<lparr>records :=
                           filter (\<lambda>idea. get idea ''id'' \<noteq> JStr i) (records st),
                           loading := False\<rparr>) s1])
               | Rejected status e \<Rightarrow>
                   (let message = js_or e (JStr ''Failed to delete idea'')
                    in (Failure message,
                        [s1, set_state (\<lambda>st. st\<lparr>error := message, loading := False\<rparr>) s1]))))"

definition useIdeasStore_clearIdeas :: "store \<Rightarrow> store" where
  "useIdeasStore_clearIdeas state = set_state (\<lambda>st. st\<lparr>records := []\<rparr>) state"

definition useIdeasStore_getIdeasForSync :: "store \<Rightarrow> obj list" where
  "useIdeasStore_getIdeasForSync state = map (without ''id'') (records state)"

section \<open>Client: the auth store and the sign-up page\<close>

record auth_state =
  user :: jsval
  token :: jsval
  isAuthenticated :: bool
  isGuest :: bool

definition initial_auth :: auth_state where
  "initial_auth = \<lparr>user = JNull, token = JNull, isAuthenticated = False, isGuest = True\<rparr>"

text \<open>
  The network as the auth store sees it: \<open>znote_token\<close> is the localStorage entry of
  that name and \<open>server\<close> whatever the requests act on. The transport \<open>post\<close> gets the
  token the request interceptor puts in the Authorization header, the path and the
  body, and returns the outcome and the server it leaves. The response interceptor
  removes the token entry on a 401.
\<close>

record 'srv net =
  znote_token :: "jsval option"
  server :: 'srv

type_synonym 'srv transport = "jsval option \<Rightarrow> string \<Rightarrow> obj \<Rightarrow> 'srv \<Rightarrow> api_result \<times> 'srv"

definition api_post :: "'srv transport \<Rightarrow> string \<Rightarrow> obj \<Rightarrow> 'srv net \<Rightarrow> api_result \<times> 'srv net" where
  "api_post post path body w =
     (case post (znote_token w) path body (server w) of
        (Rejected status e, srv') \<Rightarrow>
          (Rejected status e,
           \<lparr>znote_token = (if status = Some 401 then None else znote_token w), server = srv'\<rparr>)
      | (Resolved d, srv') \<Rightarrow> (Resolved d, w\<lparr>server := srv'\<rparr>))"

record guest_data =
  g_notes :: "obj list"
  g_tasks :: "obj list"
  g_ideas :: "obj list"

text \<open>
  One step of the sync in \<open>register\<close>:
  \<open>if (xs && xs.length > 0) { await api.post(path, { key: xs }) }\<close>.
  \<open>Some e\<close> is the error a rejected call throws, read as \<open>error.response?.data?.error\<close>.
\<close>

definition sync_records ::
  "'srv transport \<Rightarrow> string \<Rightarrow> string \<Rightarrow> obj list \<Rightarrow> 'srv net \<Rightarrow> jsval option \<times> 'srv net" where
  "sync_records post path key xs w =
     (if xs \<noteq> []
      then (case api_post post path [(key, JArr (map JObj xs))] w of
              (Resolved d, w') \<Rightarrow> (None, w')
            | (Rejected status e, w') \<Rightarrow> (Some e, w'))
      else (None, w))"

definition register ::
  "string \<Rightarrow> string \<Rightarrow> string \<Rightarrow> guest_data option \<Rightarrow> 'srv transport \<Rightarrow>
   auth_state \<times> 'srv net \<Rightarrow> call_result \<times> auth_state \<times> 'srv net" where
  "register email password name guestData post aw =
     (case api_post post ''/auth/register''
             [(''email'', JStr email), (''password'', JStr password), (''name'', JStr name)]
             (snd aw) of
        (Rejected status e, w1) \<Rightarrow>
          (Failure (js_or e (JStr ''Registration failed'')), fst aw, w1)
      | (Resolved d, w1) \<Rightarrow>
          (let a1 = (fst aw)\<lparr>user := get d ''user'', token := get d ''token'',
                              isAuthenticated := True, isGuest := False\<rparr>;
               w2 = w1\<lparr>znote_token := Some (get d ''token'')\<rparr>
           in case guestData of
                None \<Rightarrow> (Success (get d ''user''), a1, w2)
              | Some g \<Rightarrow>
                  (case sync_records post ''/notes/sync'' ''notes'' (g_notes g) w2 of
                     (Some e, w3) \<Rightarrow> (Failure (js_or e (JStr ''Registration failed'')), a1, w3)
                   | (None, w3) \<Rightarrow>
                       (case sync_records post ''/tasks/sync'' ''tasks'' (g_tasks g) w3 of
                          (Some e, w4) \<Rightarrow>
                            (Failure (js_or e (JStr ''Registration failed'')), a1, w4)
                        | (None, w4) \<Rightarrow>
                            (case sync_records post ''/ideas/sync'' ''ideas'' (g_ideas g) w4 of
                               (Some e, w5) \<Rightarrow>
                                 (Failure (js_or e (JStr ''Registration failed'')), a1, w5)
                             | (None, w5) \<Rightarrow> (Success (get d ''user''), a1, w5))))))"

text \<open>
  The page \<open>AuthPage\<close>: the three stores, the auth store, the page's own error text
  and whether it has navigated to the notes. \<open>handleSubmit_register\<close> is the branch
  of \<open>handleSubmit\<close> taken when the form is in sign-up mode.
\<close>

record 'srv page =
  notesStore :: store
  tasksStore :: store
  ideasStore :: store
  authStore :: auth_state
  network :: "'srv net"
  pageError :: jsval
  navigated :: bool

definition handleSubmit_register ::
  "string \<Rightarrow> string \<Rightarrow> string \<Rightarrow> 'srv transport \<Rightarrow> 'srv page \<Rightarrow> 'srv page" where
  "handleSubmit_register email password name post p =
     (let hasGuestData = (records (notesStore p) \<noteq> [] \<or> records (tasksStore p) \<noteq> [] \<or>
                          records (ideasStore p) \<noteq> []);
          guestData = (if hasGuestData
                       then Some \<lparr>g_notes = useNotesStore_getNotesForSync (notesStore p),
                                  g_tasks = useTasksStore_getTasksForSync (tasksStore p),
                                  g_ideas = useIdeasStore_getIdeasForSync (ideasStore p)\<rparr>
                       else None);
          p0 = p\<lparr>pageError := JStr []\<rparr>
      in case register email password name guestData post (authStore p, network p) of
           (Success u, a', w') \<Rightarrow>
             (if hasGuestData
              then p0\<lparr>notesStore := useNotesStore_clearNotes (notesStore p),
                      tasksStore := useTasksStore_clearTasks (tasksStore p),
                      ideasStore := useIdeasStore_clearIdeas (ideasStore p),
                      authStore := a', network := w', navigated := True\<rparr>
              else p0\<lparr>authStore := a', network := w', navigated := True\<rparr>)
         | (Failure e, a', w') \<Rightarrow>
             p0\<lparr>authStore := a', network := w',
                pageError := js_or e (JStr ''Registration failed'')\<rparr>)"

section \<open>The properties, in the words of the specification\<close>

text \<open>
  The order of the task list: incomplete before completed, then the earlier due date
  first with the tasks that have none after those that have one, then the newer first.
\<close>

definition task_before :: "Task \<Rightarrow> Task \<Rightarrow> bool" where
  "task_before a b \<longleftrightarrow>
     (\<not> t_completed a \<and> t_completed b) \<or>
     (t_completed a = t_completed b \<and>
        ((case (t_dueDate a, t_dueDate b) of
            (Some x, Some y) \<Rightarrow> x < y
          | (Some x, None) \<Rightarrow> True
          | _ \<Rightarrow> False) \<or>
         (t_dueDate a = t_dueDate b \<and> t_createdAt b \<le> t_createdAt a)))"

text \<open>The order of the note list: pinned before unpinned, then the newer first.\<close>

definition note_before :: "Note \<Rightarrow> Note \<Rightarrow> bool" where
  "note_before a b \<longleftrightarrow>
     (n_isPinned a \<and> \<not> n_isPinned b) \<or>
     (n_isPinned a = n_isPinned b \<and> n_createdAt b \<le> n_createdAt a)"


text \<open>A character that is not a pattern character of the database.\<close>

definition plain_char :: "char \<Rightarrow> bool" where
  "plain_char c \<longleftrightarrow> c \<noteq> CHR ''%'' \<and> c \<noteq> CHR ''_'' \<and> c \<noteq> CHR 0x5C"

text \<open>\<open>q\<close> is a substring of \<open>s\<close> when the case of ASCII letters is ignored.\<close>

definition spec_ci_substring :: "string \<Rightarrow> string \<Rightarrow> bool" where
  "spec_ci_substring q s \<longleftrightarrow> (\<exists>pre suf. map lower s = pre @ map lower q @ suf)"

text \<open>
  What an Update with the given body leaves of a stored row: the identifier, the owner
  and the creation time always, every field the body does not have, and the whole row
  when it is not the row addressed.
\<close>

definition note_kept :: "obj \<Rightarrow> ident \<Rightarrow> Note \<Rightarrow> Note \<Rightarrow> bool" where
  "note_kept body i old new \<longleftrightarrow>
     n_id new = n_id old \<and> n_userId new = n_userId old \<and> n_createdAt new = n_createdAt old \<and>
     (get body ''title'' = JUndefined \<longrightarrow> n_title new = n_title old) \<and>
     (get body ''content'' = JUndefined \<longrightarrow> n_content new = n_content old) \<and>
     (get body ''color'' = JUndefined \<longrightarrow> n_color new = n_color old) \<and>
     (get body ''isPinned'' = JUndefined \<longrightarrow> n_isPinned new = n_isPinned old) \<and>
     (n_id old \<noteq> i \<longrightarrow> new = old)"

definition task_kept :: "obj \<Rightarrow> ident \<Rightarrow> Task \<Rightarrow> Task \<Rightarrow> bool" where
  "task_kept body i old new \<longleftrightarrow>
     t_id new = t_id old \<and> t_userId new = t_userId old \<and> t_createdAt new = t_createdAt old \<and>
     (get body ''title'' = JUndefined \<longrightarrow> t_title new = t_title old) \<and>
     (get body ''description'' = JUndefined \<longrightarrow> t_description new = t_description old) \<and>
     (get body ''completed'' = JUndefined \<longrightarrow> t_completed new = t_completed old) \<and>
     (get body ''priority'' = JUndefined \<longrightarrow> t_priority new = t_priority old) \<and>
     (get body ''dueDate'' = JUndefined \<longrightarrow> t_dueDate new = t_dueDate old) \<and>
     (t_id old \<noteq> i \<longrightarrow> new = old)"

definition idea_kept :: "obj \<Rightarrow> ident \<Rightarrow> Idea \<Rightarrow> Idea \<Rightarrow> bool" where
  "idea_kept body i old new \<longleftrightarrow>
     i_id new = i_id old \<and> i_userId new = i_userId old \<and> i_createdAt new = i_createdAt old \<and>
     (get body ''title'' = JUndefined \<longrightarrow> i_title new = i_title old) \<and>
     (get body ''description'' = JUndefined \<longrightarrow> i_description new = i_description old) \<and>
     (get body ''category'' = JUndefined \<longrightarrow> i_category new = i_category old) \<and>
     (get body ''tags'' = JUndefined \<longrightarrow> i_tags new = i_tags old) \<and>
     (i_id old \<noteq> i \<longrightarrow> new = old)"

text \<open>
  A record of a bulk import that the database accepts: an object whose required
  fields are strings without the character U+0000 and whose optional fields, where
  it has any that is not falsy, are of the column's type. And what the import makes of such a record: the row has
  the caller as owner, the record's fields, and the defaults of Create where the
  record has none.
\<close>

fun is_text :: "jsval \<Rightarrow> bool" where
  "is_text (JStr s) = text_ok s"
| "is_text v = False"

fun note_record_ok :: "jsval \<Rightarrow> bool" where
  "note_record_ok (JObj kvs) =
     (is_text (get kvs ''title'') \<and> is_text (get kvs ''content'') \<and>
      (truthy (get kvs ''color'') \<longrightarrow> is_text (get kvs ''color'')) \<and>
      (truthy (get kvs ''isPinned'') \<longrightarrow> get kvs ''isPinned'' = JBool True))"
| "note_record_ok v = False"

fun note_imported :: "ident \<Rightarrow> jsval \<Rightarrow> Note \<Rightarrow> bool" where
  "note_imported uid (JObj kvs) row =
     (n_userId row = uid \<and>
      get kvs ''title'' = JStr (n_title row) \<and>
      get kvs ''content'' = JStr (n_content row) \<and>
      JStr (n_color row) = js_or (get kvs ''color'') (JStr ''#ffffff'') \<and>
      JBool (n_isPinned row) = js_or (get kvs ''isPinned'') (JBool False))"
| "note_imported uid v row = False"

fun task_record_ok :: "(jsval \<Rightarrow> nat option) \<Rightarrow> jsval \<Rightarrow> bool" where
  "task_record_ok newDate (JObj kvs) =
     (is_text (get kvs ''title'') \<and>
      (truthy (get kvs ''description'') \<longrightarrow> is_text (get kvs ''description'')) \<and>
      (truthy (get kvs ''completed'') \<longrightarrow> get kvs ''completed'' = JBool True) \<and>
      (truthy (get kvs ''priority'') \<longrightarrow>
         get kvs ''priority'' \<in> {JStr ''low'', JStr ''medium'', JStr ''high''}) \<and>
      (truthy (get kvs ''dueDate'') \<longrightarrow> newDate (get kvs ''dueDate'') \<noteq> None))"
| "task_record_ok newDate v = False"

fun task_imported :: "(jsval \<Rightarrow> nat option) \<Rightarrow> ident \<Rightarrow> jsval \<Rightarrow> Task \<Rightarrow> bool" where
  "task_imported newDate uid (JObj kvs) row =
     (t_userId row = uid \<and>
      get kvs ''title'' = JStr (t_title row) \<and>
      (case t_description row of
         None \<Rightarrow> \<not> truthy (get kvs ''description'')
       | Some s \<Rightarrow> get kvs ''description'' = JStr s \<and> s \<noteq> []) \<and>
      JBool (t_completed row) = js_or (get kvs ''completed'') (JBool False) \<and>
      JStr (t_priority row) = js_or (get kvs ''priority'') (JStr ''medium'') \<and>
      t_dueDate row = (if truthy (get kvs ''dueDate'') then newDate (get kvs ''dueDate'') else None))"
| "task_imported newDate uid v row = False"

fun idea_record_ok :: "jsval \<Rightarrow> bool" where
  "idea_record_ok (JObj kvs) =
     (is_text (get kvs ''title'') \<and> is_text (get kvs ''description'') \<and>
      (truthy (get kvs ''category'') \<longrightarrow> is_text (get kvs ''category'')) \<and>
      (case get kvs ''tags'' of JArr xs \<Rightarrow> list_all is_text xs | _ \<Rightarrow> True))"
| "idea_record_ok v = False"

fun idea_imported :: "ident \<Rightarrow> jsval \<Rightarrow> Idea \<Rightarrow> bool" where
  "idea_imported uid (JObj kvs) row =
     (i_userId row = uid \<and>
      get kvs ''title'' = JStr (i_title row) \<and>
      get kvs ''description'' = JStr (i_description row) \<and>
      JStr (i_category row) = js_or (get kvs ''category'') (JStr ''general'') \<and>
      JArr (map JStr (i_tags row)) = (case get kvs ''tags'' of JArr xs \<Rightarrow> JArr xs | _ \<Rightarrow> JArr []))"
| "idea_imported uid v row = False"

text \<open>
  The states of a store action. Through the network: two writes, the first sets
  \<open>loading\<close> and leaves the list, the second clears \<open>loading\<close>, and when the action
  reports a failure the second has put the reported message in \<open>error\<close> and the list is
  the one before the call. Locally: the action succeeds with one write that leaves
  \<open>loading\<close> and \<open>error\<close> as they were.
\<close>

definition pending_then_settled :: "store \<Rightarrow> call_result \<times> store list \<Rightarrow> bool" where
  "pending_then_settled state rt \<longleftrightarrow>
     (\<exists>s1 s2. snd rt = [s1, s2] \<and>
        loading s1 \<and> records s1 = records state \<and>
        \<not> loading s2 \<and>
        (\<forall>m. fst rt = Failure m \<longrightarrow> error s2 = m \<and> records s2 = records state))"

definition never_pending :: "store \<Rightarrow> call_result \<times> store list \<Rightarrow> bool" where
  "never_pending state rt \<longleftrightarrow>
     (\<exists>v s1. rt = (Success v, [s1]) \<and> loading s1 = loading state \<and> error s1 = error state)"

section \<open>Example data\<close>

definition note_a :: Note where
  "note_a = \<lparr>n_id = ''a'', n_title = ''Shopping'', n_content = ''milk'', n_color = ''#ffffff'',
              n_isPinned = False, n_userId = ''u1'', n_createdAt = 1, n_updatedAt = 1\<rparr>"

definition note_b :: Note where
  "note_b = \<lparr>n_id = ''b'', n_title = ''Plan'', n_content = ''week'', n_color = ''#10b981'',
              n_isPinned = True, n_userId = ''u2'', n_createdAt = 2, n_updatedAt = 2\<rparr>"

definition task_a :: Task where
  "task_a = \<lparr>t_id = ''a'', t_title = ''Call'', t_description = None, t_completed = False,
              t_priority = ''medium'', t_dueDate = Some 50, t_userId = ''u1'', t_createdAt = 1, t_updatedAt = 1\<rparr>"

definition task_b :: Task where
  "task_b = \<lparr>t_id = ''b'', t_title = ''Pay'', t_description = Some ''rent'', t_completed = True,
              t_priority = ''high'', t_dueDate = None, t_userId = ''u2'', t_createdAt = 2, t_updatedAt = 2\<rparr>"

definition idea_a :: Idea where
  "idea_a = \<lparr>i_id = ''a'', i_title = ''Paint'', i_description = ''the door'',
              i_category = ''general'', i_tags = [''blue''], i_userId = ''u1'', i_createdAt = 1, i_updatedAt = 1\<rparr>"

definition idea_b :: Idea where
  "idea_b = \<lparr>i_id = ''b'', i_title = ''Trip'', i_description = ''by train'',
              i_category = ''travel'', i_tags = [''Blue''], i_userId = ''u2'', i_createdAt = 2, i_updatedAt = 2\<rparr>"

text \<open>A stand-in for the hash comparison and for the token signature.\<close>

definition plain_compare :: "string \<Rightarrow> string \<Rightarrow> bool" where
  "plain_compare password hash = (hash = ''h:'' @ password)"

definition plain_sign :: "ident \<Rightarrow> string \<Rightarrow> string" where
  "plain_sign uid email = ''jwt:'' @ uid"

definition user_ann :: User where
  "user_ann = \<lparr>u_id = ''u1'', u_email = ''ann@example.com'', u_password = ''h:secret'',
                u_name = None\<rparr>"

definition example_sync_body :: obj where
  "example_sync_body =
     [(''notes'', JArr [JObj [(''title'', JStr ''A''), (''content'', JStr ''B''),
                              (''color'', JStr ''#3b82f6''), (''isPinned'', JBool True)],
                        JObj [(''title'', JStr ''C''), (''content'', JStr ''D'')]]),
      (''tasks'', JArr [JObj [(''title'', JStr ''T'')]]),
      (''ideas'', JArr [JObj [(''title'', JStr ''I''), (''description'', JStr ''J'')]])]"

text \<open>Three networks: none, one that refuses and one that accepts.\<close>

definition offline :: "request \<Rightarrow> api_result" where
  "offline r = Rejected None JUndefined"

definition refusing :: "request \<Rightarrow> api_result" where
  "refusing r = Rejected (Some 404) (JStr ''Note not found'')"

definition accepting :: "request \<Rightarrow> api_result" where
  "accepting r =
     Resolved [(''id'', JStr ''s1''), (''title'', JStr ''Pay''), (''completed'', JBool True)]"

definition one_note_store :: store where
  "one_note_store =
     \<lparr>records = [[(''id'', JStr ''n1''), (''title'', JStr ''A''), (''content'', JStr ''B'')]],
      loading = False, error = JNull,
      persisted = [[(''id'', JStr ''n1''), (''title'', JStr ''A''), (''content'', JStr ''B'')]]\<rparr>"


definition never_date :: "jsval \<Rightarrow> nat option" where
  "never_date v = None"

text \<open>
  A server for the sign-up page: the three tables behind the three sync handlers,
  and a registration that always succeeds for user \<open>u1\<close>.
\<close>

record example_server =
  srv_notes :: "Note list"
  srv_tasks :: "Task list"
  srv_ideas :: "Idea list"

definition as_api_result :: "nat response \<Rightarrow> api_result" where
  "as_api_result r =
     (case r of
        Inl (status, message) \<Rightarrow> Rejected (Some status) (JStr message)
      | Inr created \<Rightarrow> Resolved [(''count'', JNum (int created))])"

definition example_post :: "example_server transport" where
  "example_post tok path body srv =
     (if path = ''/auth/register''
      then (Resolved [(''user'', JObj [(''id'', JStr ''u1'')]), (''token'', JStr ''jwt'')], srv)
      else if path = ''/notes/sync''
      then (case bulkCreateNotes ''u1'' 5 body (srv_notes srv) of
              (r, table) \<Rightarrow> (as_api_result r, srv\<lparr>srv_notes := table\<rparr>))
      else if path = ''/tasks/sync''
      then (case bulkCreateTasks never_date ''u1'' 5 body (srv_tasks srv) of
              (r, table) \<Rightarrow> (as_api_result r, srv\<lparr>srv_tasks := table\<rparr>))
      else (case bulkCreateIdeas ''u1'' 5 body (srv_ideas srv) of
              (r, table) \<Rightarrow> (as_api_result r, srv\<lparr>srv_ideas := table\<rparr>)))"

text \<open>A guest with one note and one task whose due date is not a date.\<close>

definition guest_page :: "example_server page" where
  "guest_page =
     \<lparr>notesStore = initial_store\<lparr>
        records := [[(''id'', JStr ''g1''), (''title'', JStr ''A''), (''content'', JStr ''B'')]],
        persisted := [[(''id'', JStr ''g1''), (''title'', JStr ''A''), (''content'', JStr ''B'')]]\<rparr>,
      tasksStore = initial_store\<lparr>
        records := [[(''id'', JStr ''g2''), (''title'', JStr ''Pay''), (''dueDate'', JStr ''soon'')]],
        persisted := [[(''id'', JStr ''g2''), (''title'', JStr ''Pay''), (''dueDate'', JStr ''soon'')]]\<rparr>,
      ideasStore = initial_store,
      authStore = initial_auth,
      network = \<lparr>znote_token = None, server = \<lparr>srv_notes = [], srv_tasks = [], srv_ideas = []\<rparr>\<rparr>,
      pageError = JStr [],
      navigated = False\<rparr>"

section \<open>Delete\<close>









section \<open>List order\<close>

lemma mset_insert_by: "mset (insert_by le x xs) = add_mset x (mset xs)"
  by (induction xs) auto

lemma mset_orderBy: "mset (orderBy keys rows) = mset rows"
  by (induction rows) (auto simp: orderBy_def mset_insert_by)

lemma set_insert_by: "set (insert_by le x xs) = insert x (set xs)"
  by (induction xs) auto

lemma sorted_wrt_insert_by:
  assumes total: "\<And>a b. le a b \<or> le b a"
    and trans: "\<And>a b c. le a b \<Longrightarrow> le b c \<Longrightarrow> le a c"
  shows "sorted_wrt le xs \<Longrightarrow> sorted_wrt le (insert_by le x xs)"
proof (induction xs)
  case Nil
  then show ?case by simp
next
  case (Cons y ys)
  show ?case
  proof (cases "le x y")
    case True
    with Cons.prems trans show ?thesis by auto
  next
    case False
    with total have "le y x" by blast
    with False Cons show ?thesis by (auto simp: set_insert_by)
  qed
qed

lemma sorted_wrt_orderBy:
  assumes total: "\<And>a b. precedes keys a b \<or> precedes keys b a"
    and trans: "\<And>a b c. precedes keys a b \<Longrightarrow> precedes keys b c \<Longrightarrow> precedes keys a c"
  shows "sorted_wrt (precedes keys) (orderBy keys rows)"
proof (induction rows)
  case Nil
  then show ?case by (simp add: orderBy_def)
next
  case (Cons r rows)
  have "orderBy keys (r # rows) = insert_by (precedes keys) r (orderBy keys rows)"
    by (simp add: orderBy_def)
  with Cons show ?case
    using sorted_wrt_insert_by[of "precedes keys", OF total trans] by simp
qed

text \<open>The sort keys of \<open>getTasks\<close> and \<open>getNotes\<close> are the orders stated above.\<close>

lemma precedes_tasks:
  "precedes [asc t_completed, asc_nulls_last t_dueDate, desc t_createdAt] a b = task_before a b"
  by (auto simp: precedes_def asc_def desc_def asc_nulls_last_def task_before_def
           split: option.splits)

lemma task_before_total: "task_before a b \<or> task_before b a"
  by (auto simp: task_before_def split: option.splits)

lemma task_before_trans: "task_before a b \<Longrightarrow> task_before b c \<Longrightarrow> task_before a c"
  by (auto simp: task_before_def split: option.splits)

lemma precedes_notes:
  "precedes [desc n_isPinned, desc n_createdAt] a b = note_before a b"
  by (auto simp: precedes_def asc_def desc_def note_before_def)

lemma note_before_total: "note_before a b \<or> note_before b a"
  by (auto simp: note_before_def)

lemma note_before_trans: "note_before a b \<Longrightarrow> note_before b c \<Longrightarrow> note_before a c"
  by (auto simp: note_before_def)

lemma sorted_tasks:
  "sorted_wrt task_before
     (orderBy [asc t_completed, asc_nulls_last t_dueDate, desc t_createdAt] rows)"
proof -
  have "sorted_wrt (precedes [asc t_completed, asc_nulls_last t_dueDate, desc t_createdAt])
          (orderBy [asc t_completed, asc_nulls_last t_dueDate, desc t_createdAt] rows)"
    by (rule sorted_wrt_orderBy)
       (use task_before_total task_before_trans in \<open>auto simp: precedes_tasks\<close>)
  then show ?thesis
    using precedes_tasks by (metis (no_types, lifting) sorted_wrt_mono_rel)
qed

lemma sorted_notes:
  "sorted_wrt note_before (orderBy [desc n_isPinned, desc n_createdAt] rows)"
proof -
  have "sorted_wrt (precedes [desc n_isPinned, desc n_createdAt])
          (orderBy [desc n_isPinned, desc n_createdAt] rows)"
    by (rule sorted_wrt_orderBy)
       (use note_before_total note_before_trans in \<open>auto simp: precedes_notes\<close>)
  then show ?thesis
    using precedes_notes by (metis (no_types, lifting) sorted_wrt_mono_rel)
qed

text \<open>
  Claim C6. The task list returned to a caller holds exactly the caller's tasks, each
  as often as stored, and every task in it stands before the later ones in the order
  incomplete first, then earlier due date, then newer. The note list holds exactly the
  caller's notes, pinned first, then newer.
\<close>

theorem list_order:
  "(\<exists>ts. getTasks uid tasks = Inr ts \<and>
          mset ts = mset (filter (\<lambda>r. t_userId r = uid) tasks) \<and>
          sorted_wrt task_before ts) \<and>
   (\<exists>ns. getNotes uid notes = Inr ns \<and>
          mset ns = mset (filter (\<lambda>r. n_userId r = uid) notes) \<and>
          sorted_wrt note_before ns)"
  by (simp add: getTasks_def getNotes_def mset_orderBy sorted_tasks sorted_notes)

text \<open>
  Three tasks and two notes of user \<open>u1\<close> among those of \<open>u2\<close>: the incomplete task
  due at 50 comes first, then the incomplete one without a due date, then the
  completed one; the pinned note comes before the newer unpinned one.
\<close>

theorem list_order_witness:
  "getTasks ''u1''
     [task_a\<lparr>t_completed := True, t_createdAt := 9\<rparr>, task_b,
      task_a\<lparr>t_id := ''c'', t_dueDate := None\<rparr>, task_a\<lparr>t_id := ''d''\<rparr>] =
     Inr [task_a\<lparr>t_id := ''d''\<rparr>, task_a\<lparr>t_id := ''c'', t_dueDate := None\<rparr>,
          task_a\<lparr>t_completed := True, t_createdAt := 9\<rparr>] \<and>
   getNotes ''u1'' [note_a\<lparr>n_createdAt := 7\<rparr>, note_b, note_a\<lparr>n_id := ''c'', n_isPinned := True\<rparr>] =
     Inr [note_a\<lparr>n_id := ''c'', n_isPinned := True\<rparr>, note_a\<lparr>n_createdAt := 7\<rparr>]"
  using list_order
          [of "''u1''"
              "[task_a\<lparr>t_completed := True, t_createdAt := 9\<rparr>, task_b,
                task_a\<lparr>t_id := ''c'', t_dueDate := None\<rparr>, task_a\<lparr>t_id := ''d''\<rparr>]"
              "[note_a\<lparr>n_createdAt := 7\<rparr>, note_b, note_a\<lparr>n_id := ''c'', n_isPinned := True\<rparr>]"]
  by (simp add: getTasks_def getNotes_def orderBy_def precedes_def asc_def desc_def
        asc_nulls_last_def task_a_def task_b_def note_a_def note_b_def)

section \<open>Login\<close>

text \<open>
  A request without an email or without a password is answered 400 whatever the
  credential store holds.
\<close>

lemma login_missing_credentials:
  "\<not> truthy (get body ''email'') \<or> \<not> truthy (get body ''password'') \<Longrightarrow>
   login compare sign body users = Inl (400, ''Email and password are required'')"
  by (auto simp: login_def)

text \<open>
  With an email and a password that are non-empty strings, a store without the email
  and a store where the password does not match the hash give the same answer.
\<close>

lemma login_string_credentials:
  assumes "as_text (get body ''email'') = Some e" and "e \<noteq> []"
    and "get body ''password'' = JStr p" and "p \<noteq> []"
    and "find (\<lambda>u. u_email u = e) users1 = None"
    and "find (\<lambda>u. u_email u = e) users2 = Some u" and "\<not> compare p (u_password u)"
  shows "login compare sign body users1 = Inl (401, ''Invalid email or password'') \<and>
         login compare sign body users2 = Inl (401, ''Invalid email or password'')"
proof -
  from assms(1) have "get body ''email'' = JStr e"
    by (cases "get body ''email''") (auto split: if_splits)
  with assms show ?thesis by (simp add: login_def)
qed

text \<open>
  Claim C5. A failed login is to be answered 401 with one message, so that the answer
  does not tell whether the email is stored. The handler does so for string
  passwords and misses it for a password that is not a string: with the password
  \<open>123\<close>, an email that is not stored is answered 401 and an email that is stored is
  answered 500, because the comparison of the password with the hash throws.
\<close>

theorem login_number_password_reveals_email:
  "login plain_compare plain_sign
     [(''email'', JStr ''ann@example.com''), (''password'', JNum 123)] [] =
     Inl (401, ''Invalid email or password'') \<and>
   login plain_compare plain_sign
     [(''email'', JStr ''ann@example.com''), (''password'', JNum 123)] [user_ann] =
     Inl (500, ''Failed to login'')"
  by (simp add: login_def get_def user_ann_def text_ok_def)

text \<open>
  The two answers to the same request differ, so the answer tells whether the email
  is stored.
\<close>

theorem login_number_password_reveals_email_witness:
  "login plain_compare plain_sign
     [(''email'', JStr ''ann@example.com''), (''password'', JNum 123)] [] \<noteq>
   login plain_compare plain_sign
     [(''email'', JStr ''ann@example.com''), (''password'', JNum 123)] [user_ann]"
  using login_number_password_reveals_email by simp

section \<open>Search\<close>






text \<open>
  The pattern match on ASCII text: for a query without pattern characters it is the
  substring test with the case of letters ignored, and the underscore of a query
  stands for any character.
\<close>

lemma like_match_any: "like_match [AnySeq] s"
  by (induction s) auto

lemma like_match_lits:
  "like_match (map Lit xs @ ts) s \<longleftrightarrow> (\<exists>rest. s = xs @ rest \<and> like_match ts rest)"
proof (induction xs arbitrary: s)
  case Nil
  then show ?case by simp
next
  case (Cons x xs)
  show ?case
  proof (cases s)
    case Nil
    then show ?thesis by simp
  next
    case (Cons c cs)
    then show ?thesis using Cons.IH[of cs] by auto
  qed
qed

lemma like_match_anyseq:
  "like_match (AnySeq # ts) s \<longleftrightarrow> (\<exists>pre rest. s = pre @ rest \<and> like_match ts rest)"
proof (induction s)
  case Nil
  then show ?case by simp
next
  case (Cons c cs)
  show ?case
  proof
    assume "like_match (AnySeq # ts) (c # cs)"
    then consider "like_match ts (c # cs)" | "like_match (AnySeq # ts) cs" by auto
    then show "\<exists>pre rest. c # cs = pre @ rest \<and> like_match ts rest"
    proof cases
      case 1
      then have "c # cs = [] @ (c # cs) \<and> like_match ts (c # cs)" by simp
      then show ?thesis by blast
    next
      case 2
      then obtain pre rest where "cs = pre @ rest" "like_match ts rest" using Cons.IH by blast
      then have "c # cs = (c # pre) @ rest \<and> like_match ts rest" by simp
      then show ?thesis by blast
    qed
  next
    assume "\<exists>pre rest. c # cs = pre @ rest \<and> like_match ts rest"
    then obtain pre rest where eq: "c # cs = pre @ rest" and m: "like_match ts rest" by blast
    show "like_match (AnySeq # ts) (c # cs)"
    proof (cases pre)
      case Nil
      with eq m show ?thesis by simp
    next
      case (Cons p ps)
      with eq have "cs = ps @ rest" by simp
      with m have "like_match (AnySeq # ts) cs" using Cons.IH by blast
      then show ?thesis by simp
    qed
  qed
qed

lemma lower_plain: "plain_char c \<Longrightarrow> plain_char (lower c)"
proof -
  assume p: "plain_char c"
  show ?thesis
  proof (cases "65 \<le> (of_char c :: nat) \<and> (of_char c :: nat) \<le> 90")
    case False
    with p show ?thesis by (auto simp: lower_def Let_def)
  next
    case True
    then have l: "lower c = char_of ((of_char c :: nat) + 32)" by (simp add: lower_def Let_def)
    have "(of_char (lower c) :: nat) = of_char c + 32" unfolding l using True by simp
    with True have "97 \<le> (of_char (lower c) :: nat)" by simp
    moreover have "(of_char (CHR ''%'') :: nat) = 37" "(of_char (CHR ''_'') :: nat) = 95"
      "(of_char (CHR 0x5C) :: nat) = 92" by simp_all
    ultimately show ?thesis unfolding plain_char_def by force
  qed
qed

lemma like_tokens_plain:
  "\<forall>c\<in>set xs. plain_char c \<Longrightarrow>
   like_tokens (xs @ rest) = map_option (\<lambda>ts. map Lit xs @ ts) (like_tokens rest)"
proof (induction xs)
  case Nil
  then show ?case by (simp add: option.map_ident)
next
  case (Cons x xs)
  then have "plain_char x"
    and IH: "like_tokens (xs @ rest) = map_option (\<lambda>ts. map Lit xs @ ts) (like_tokens rest)"
    by auto
  then show ?case by (simp add: plain_char_def option.map_comp comp_def)
qed

lemma lower_percent: "lower (CHR ''%'') = CHR ''%''"
  by (simp add: lower_def)

lemma ascii_ilike_plain:
  assumes "\<forall>c\<in>set q. plain_char c"
  shows "ascii_ilike (contains_pattern q) s = spec_ci_substring q s"
proof -
  let ?q = "map lower q" and ?s = "map lower s"
  have pl: "\<forall>c\<in>set ?q. plain_char c" using assms lower_plain by auto
  have tk: "like_tokens (map lower (contains_pattern q)) = Some (AnySeq # map Lit ?q @ [AnySeq])"
    using like_tokens_plain[OF pl, of "[CHR ''%'']"]
    by (simp add: contains_pattern_def lower_percent)
  have "like_match (AnySeq # map Lit ?q @ [AnySeq]) ?s \<longleftrightarrow>
          (\<exists>pre rest. ?s = pre @ rest \<and> like_match (map Lit ?q @ [AnySeq]) rest)"
    by (rule like_match_anyseq)
  also have "\<dots> \<longleftrightarrow> (\<exists>pre rest. ?s = pre @ rest \<and> (\<exists>suf. rest = ?q @ suf))"
    unfolding like_match_lits using like_match_any by simp
  also have "\<dots> \<longleftrightarrow> (\<exists>pre suf. ?s = pre @ ?q @ suf)"
    by blast
  finally show ?thesis
    unfolding ascii_ilike_def spec_ci_substring_def tk by simp
qed

lemma underscore_matches_any: "ascii_ilike (contains_pattern ''a_b'') ''axb''"
  by (simp add: ascii_ilike_def contains_pattern_def lower_def)

text \<open>
  The query \<open>a_b\<close> finds an idea whose title is \<open>axb\<close>, which does not have the query
  as a substring.
\<close>

lemma search_underscore_is_pattern:
  "searchIdeas ascii_ilike ''u1'' (JStr ''a_b'')
     [\<lparr>i_id = ''c'', i_title = ''axb'', i_description = ''none'', i_category = ''general'',
       i_tags = [], i_userId = ''u1'', i_createdAt = 3, i_updatedAt = 3\<rparr>] =
     Inr [\<lparr>i_id = ''c'', i_title = ''axb'', i_description = ''none'', i_category = ''general'',
           i_tags = [], i_userId = ''u1'', i_createdAt = 3, i_updatedAt = 3\<rparr>] \<and>
   \<not> spec_ci_substring ''a_b'' ''axb''"
proof -
  have "\<not> spec_ci_substring ''a_b'' ''axb''"
  proof
    assume "spec_ci_substring ''a_b'' ''axb''"
    then obtain pre suf where eq: "map lower ''axb'' = pre @ map lower ''a_b'' @ suf"
      unfolding spec_ci_substring_def by blast
    then have "length (map lower ''axb'') = length (pre @ map lower ''a_b'' @ suf)" by simp
    then have "pre = []" "suf = []" by simp_all
    with eq show False by (simp add: lower_def)
  qed
  then show ?thesis
    by (simp add: searchIdeas_def orderBy_def ascii_ilike_def contains_pattern_def has_def
          lower_def text_ok_def)
qed

section \<open>Update\<close>

lemma write_text_kept: "write_text v = Some f \<Longrightarrow> v = JUndefined \<Longrightarrow> f old = old"
  by auto

lemma write_bool_kept: "write_bool v = Some f \<Longrightarrow> v = JUndefined \<Longrightarrow> f old = old"
  by auto

lemma write_opt_text_kept: "write_opt_text v = Some f \<Longrightarrow> v = JUndefined \<Longrightarrow> f old = old"
  by auto

lemma write_priority_kept: "write_priority v = Some f \<Longrightarrow> v = JUndefined \<Longrightarrow> f old = old"
  by auto

lemma write_texts_kept: "write_texts v = Some f \<Longrightarrow> v = JUndefined \<Longrightarrow> f old = old"
  by auto

lemma write_opt_date_kept: "write_opt_date v = Some f \<Longrightarrow> v = DUndefined \<Longrightarrow> f old = old"
  by auto

subsection \<open>Notes\<close>

lemma note_patch_Some:
  assumes "note_patch now d = Some f"
  obtains t c col p where
    "write_text (nd_title d) = Some t" "write_text (nd_content d) = Some c"
    "write_text (nd_color d) = Some col" "write_bool (nd_isPinned d) = Some p"
    "f = (\<lambda>r. r\<lparr>n_title := t (n_title r), n_content := c (n_content r),
                  n_color := col (n_color r), n_isPinned := p (n_isPinned r),
                  n_updatedAt := now\<rparr>)"
  using assms unfolding note_patch_def
  by (cases "write_text (nd_title d)"; cases "write_text (nd_content d)";
      cases "write_text (nd_color d)"; cases "write_bool (nd_isPinned d)") auto

lemma note_kept_refl: "note_kept body i r r"
  by (simp add: note_kept_def)

lemma note_patch_kept:
  assumes "note_patch now (note_update_data body) = Some f"
  shows "note_kept body (n_id old) old (f old)"
proof -
  from assms obtain t c col p where
    w: "write_text (get body ''title'') = Some t" "write_text (get body ''content'') = Some c"
       "write_text (get body ''color'') = Some col" "write_bool (get body ''isPinned'') = Some p"
    and f: "f = (\<lambda>r. r\<lparr>n_title := t (n_title r), n_content := c (n_content r),
                  n_color := col (n_color r), n_isPinned := p (n_isPinned r),
                  n_updatedAt := now\<rparr>)"
    by (elim note_patch_Some) (simp add: note_update_data_def)
  show ?thesis
    unfolding note_kept_def f
    using write_text_kept[OF w(1)] write_text_kept[OF w(2)] write_text_kept[OF w(3)]
      write_bool_kept[OF w(4)]
    by simp
qed

lemma note_update_Some:
  "note_update i now d table = Some (r, table') \<Longrightarrow>
   \<exists>old f. find (\<lambda>r. n_id r = i) table = Some old \<and> note_patch now d = Some f \<and>
           r = f old \<and> table' = map (\<lambda>x. if n_id x = i then f x else x) table"
  by (auto simp: note_update_def split: option.splits)

lemma updateNote_cases:
  obtains (unchanged) e where "updateNote uid now i body table = (Inl e, table)"
  | (updated) old f where
      "find (\<lambda>r. n_id r = i) table = Some old"
      "note_patch now (note_update_data body) = Some f"
      "updateNote uid now i body table =
         (Inr (f old), map (\<lambda>x. if n_id x = i then f x else x) table)"
proof (cases "find (\<lambda>r. n_id r = i \<and> n_userId r = uid) table")
  case None
  then show ?thesis using unchanged by (simp add: updateNote_def)
next
  case owned: (Some existing)
  show ?thesis
  proof (cases "note_update i now (note_update_data body) table")
    case None
    with owned show ?thesis using unchanged by (simp add: updateNote_def)
  next
    case (Some rt)
    obtain r t' where rt: "rt = (r, t')" by (cases rt)
    from note_update_Some[OF Some[unfolded rt]] obtain old f where
      "find (\<lambda>r. n_id r = i) table = Some old"
      "note_patch now (note_update_data body) = Some f"
      "r = f old" "t' = map (\<lambda>x. if n_id x = i then f x else x) table"
      by blast
    with Some rt owned show ?thesis using updated by (simp add: updateNote_def)
  qed
qed

lemma updateNote_frame:
  "list_all2 (note_kept body i) table (snd (updateNote uid now i body table))"
proof (cases rule: updateNote_cases[of uid now i body table])
  case (unchanged e)
  then show ?thesis by (simp add: list_all2_same note_kept_refl)
next
  case (updated old f)
  have "note_kept body i x (if n_id x = i then f x else x)" for x
    using note_patch_kept[OF updated(2), of x] by (auto simp: note_kept_refl)
  then show ?thesis
    using updated(3) by (simp add: list_all2_map2 list_all2_same)
qed

subsection \<open>Tasks\<close>

lemma task_patch_Some:
  assumes "task_patch now d = Some f"
  obtains t ds c p due where
    "write_text (td_title d) = Some t" "write_opt_text (td_description d) = Some ds"
    "write_bool (td_completed d) = Some c" "write_priority (td_priority d) = Some p"
    "write_opt_date (td_dueDate d) = Some due"
    "f = (\<lambda>r. r\<lparr>t_title := t (t_title r), t_description := ds (t_description r),
                  t_completed := c (t_completed r), t_priority := p (t_priority r),
                  t_dueDate := due (t_dueDate r), t_updatedAt := now\<rparr>)"
  using assms unfolding task_patch_def
  by (cases "write_text (td_title d)"; cases "write_opt_text (td_description d)";
      cases "write_bool (td_completed d)"; cases "write_priority (td_priority d)";
      cases "write_opt_date (td_dueDate d)") auto

lemma task_kept_refl: "task_kept body i r r"
  by (simp add: task_kept_def)

lemma task_patch_kept:
  assumes "task_patch now (task_update_data newDate body) = Some f"
  shows "task_kept body (t_id old) old (f old)"
proof -
  from assms obtain t ds c p due where
    w: "write_text (get body ''title'') = Some t"
       "write_opt_text (get body ''description'') = Some ds"
       "write_bool (get body ''completed'') = Some c"
       "write_priority (get body ''priority'') = Some p"
       "write_opt_date (td_dueDate (task_update_data newDate body)) = Some due"
    and f: "f = (\<lambda>r. r\<lparr>t_title := t (t_title r), t_description := ds (t_description r),
                  t_completed := c (t_completed r), t_priority := p (t_priority r),
                  t_dueDate := due (t_dueDate r), t_updatedAt := now\<rparr>)"
    by (elim task_patch_Some) (simp add: task_update_data_def)
  have due: "get body ''dueDate'' = JUndefined \<Longrightarrow> due (t_dueDate old) = t_dueDate old"
    using write_opt_date_kept[OF w(5)] by (simp add: task_update_data_def)
  show ?thesis
    unfolding task_kept_def f
    using write_text_kept[OF w(1)] write_opt_text_kept[OF w(2)] write_bool_kept[OF w(3)]
      write_priority_kept[OF w(4)] due
    by simp
qed

lemma task_update_Some:
  "task_update i now d table = Some (r, table') \<Longrightarrow>
   \<exists>old f. find (\<lambda>r. t_id r = i) table = Some old \<and> task_patch now d = Some f \<and>
           r = f old \<and> table' = map (\<lambda>x. if t_id x = i then f x else x) table"
  by (auto simp: task_update_def split: option.splits)

lemma updateTask_cases:
  obtains (unchanged) e where "updateTask newDate uid now i body table = (Inl e, table)"
  | (updated) old f where
      "find (\<lambda>r. t_id r = i) table = Some old"
      "task_patch now (task_update_data newDate body) = Some f"
      "updateTask newDate uid now i body table =
         (Inr (f old), map (\<lambda>x. if t_id x = i then f x else x) table)"
proof (cases "find (\<lambda>r. t_id r = i \<and> t_userId r = uid) table")
  case None
  then show ?thesis using unchanged by (simp add: updateTask_def)
next
  case owned: (Some existing)
  show ?thesis
  proof (cases "task_update i now (task_update_data newDate body) table")
    case None
    with owned show ?thesis using unchanged by (simp add: updateTask_def)
  next
    case (Some rt)
    obtain r t' where rt: "rt = (r, t')" by (cases rt)
    from task_update_Some[OF Some[unfolded rt]] obtain old f where
      "find (\<lambda>r. t_id r = i) table = Some old"
      "task_patch now (task_update_data newDate body) = Some f"
      "r = f old" "t' = map (\<lambda>x. if t_id x = i then f x else x) table"
      by blast
    with Some rt owned show ?thesis using updated by (simp add: updateTask_def)
  qed
qed

lemma updateTask_frame:
  "list_all2 (task_kept body i) table (snd (updateTask newDate uid now i body table))"
proof (cases rule: updateTask_cases[of newDate uid now i body table])
  case (unchanged e)
  then show ?thesis by (simp add: list_all2_same task_kept_refl)
next
  case (updated old f)
  have "task_kept body i x (if t_id x = i then f x else x)" for x
    using task_patch_kept[OF updated(2), of x] by (auto simp: task_kept_refl)
  then show ?thesis
    using updated(3) by (simp add: list_all2_map2 list_all2_same)
qed

subsection \<open>Ideas\<close>

lemma idea_patch_Some:
  assumes "idea_patch now d = Some f"
  obtains t ds c tags where
    "write_text (id_title d) = Some t" "write_text (id_description d) = Some ds"
    "write_text (id_category d) = Some c" "write_texts (id_tags d) = Some tags"
    "f = (\<lambda>r. r\<lparr>i_title := t (i_title r), i_description := ds (i_description r),
                  i_category := c (i_category r), i_tags := tags (i_tags r),
                  i_updatedAt := now\<rparr>)"
  using assms unfolding idea_patch_def
  by (cases "write_text (id_title d)"; cases "write_text (id_description d)";
      cases "write_text (id_category d)"; cases "write_texts (id_tags d)") auto

lemma idea_kept_refl: "idea_kept body i r r"
  by (simp add: idea_kept_def)

lemma idea_patch_kept:
  assumes "idea_patch now (idea_update_data body) = Some f"
  shows "idea_kept body (i_id old) old (f old)"
proof -
  from assms obtain t ds c tags where
    w: "write_text (get body ''title'') = Some t"
       "write_text (get body ''description'') = Some ds"
       "write_text (get body ''category'') = Some c"
       "write_texts (id_tags (idea_update_data body)) = Some tags"
    and f: "f = (\<lambda>r. r\<lparr>i_title := t (i_title r), i_description := ds (i_description r),
                  i_category := c (i_category r), i_tags := tags (i_tags r),
                  i_updatedAt := now\<rparr>)"
    by (elim idea_patch_Some) (simp add: idea_update_data_def)
  have tags: "get body ''tags'' = JUndefined \<Longrightarrow> tags (i_tags old) = i_tags old"
    using write_texts_kept[OF w(4)] by (simp add: idea_update_data_def)
  show ?thesis
    unfolding idea_kept_def f
    using write_text_kept[OF w(1)] write_text_kept[OF w(2)] write_text_kept[OF w(3)] tags
    by simp
qed

lemma idea_update_Some:
  "idea_update i now d table = Some (r, table') \<Longrightarrow>
   \<exists>old f. find (\<lambda>r. i_id r = i) table = Some old \<and> idea_patch now d = Some f \<and>
           r = f old \<and> table' = map (\<lambda>x. if i_id x = i then f x else x) table"
  by (auto simp: idea_update_def split: option.splits)

lemma updateIdea_cases:
  obtains (unchanged) e where "updateIdea uid now i body table = (Inl e, table)"
  | (updated) old f where
      "find (\<lambda>r. i_id r = i) table = Some old"
      "idea_patch now (idea_update_data body) = Some f"
      "updateIdea uid now i body table =
         (Inr (f old), map (\<lambda>x. if i_id x = i then f x else x) table)"
proof (cases "find (\<lambda>r. i_id r = i \<and> i_userId r = uid) table")
  case None
  then show ?thesis using unchanged by (simp add: updateIdea_def)
next
  case owned: (Some existing)
  show ?thesis
  proof (cases "idea_update i now (idea_update_data body) table")
    case None
    with owned show ?thesis using unchanged by (simp add: updateIdea_def)
  next
    case (Some rt)
    obtain r t' where rt: "rt = (r, t')" by (cases rt)
    from idea_update_Some[OF Some[unfolded rt]] obtain old f where
      "find (\<lambda>r. i_id r = i) table = Some old"
      "idea_patch now (idea_update_data body) = Some f"
      "r = f old" "t' = map (\<lambda>x. if i_id x = i then f x else x) table"
      by blast
    with Some rt owned show ?thesis using updated by (simp add: updateIdea_def)
  qed
qed

lemma updateIdea_frame:
  "list_all2 (idea_kept body i) table (snd (updateIdea uid now i body table))"
proof (cases rule: updateIdea_cases[of uid now i body table])
  case (unchanged e)
  then show ?thesis by (simp add: list_all2_same idea_kept_refl)
next
  case (updated old f)
  have "idea_kept body i x (if i_id x = i then f x else x)" for x
    using idea_patch_kept[OF updated(2), of x] by (auto simp: idea_kept_refl)
  then show ?thesis
    using updated(3) by (simp add: list_all2_map2 list_all2_same)
qed

text \<open>
  Claim C4, amended. Whatever the body of an Update holds and whatever the call
  answers, the table afterwards has the same rows in the same places, each with its
  identifier, owner and creation time, and with every field the body does not have
  as it was, the update time excepted; a row other than the one addressed is not
  changed at all. This holds for notes, tasks and ideas.
\<close>

theorem update_keeps_absent_fields:
  "list_all2 (note_kept body i) notes (snd (updateNote uid now i body notes)) \<and>
   list_all2 (task_kept body i) tasks (snd (updateTask newDate uid now i body tasks)) \<and>
   list_all2 (idea_kept body i) ideas (snd (updateIdea uid now i body ideas))"
  using updateNote_frame updateTask_frame updateIdea_frame by blast

text \<open>
  User \<open>u1\<close> updates record \<open>a\<close> at time 9 with a body that has a new title and also
  an \<open>id\<close> and a \<open>userId\<close>: the title and the update time of that record change and
  nothing else does.
\<close>

theorem update_keeps_absent_fields_witness:
  "updateNote ''u1'' 9 ''a''
     [(''title'', JStr ''New''), (''id'', JStr ''z''), (''userId'', JStr ''u2'')]
     [note_a, note_b] =
     (Inr (note_a\<lparr>n_title := ''New'', n_updatedAt := 9\<rparr>),
      [note_a\<lparr>n_title := ''New'', n_updatedAt := 9\<rparr>, note_b]) \<and>
   updateTask never_date ''u1'' 9 ''a''
     [(''title'', JStr ''New''), (''id'', JStr ''z''), (''userId'', JStr ''u2'')]
     [task_a, task_b] =
     (Inr (task_a\<lparr>t_title := ''New'', t_updatedAt := 9\<rparr>),
      [task_a\<lparr>t_title := ''New'', t_updatedAt := 9\<rparr>, task_b]) \<and>
   updateIdea ''u1'' 9 ''a''
     [(''title'', JStr ''New''), (''id'', JStr ''z''), (''userId'', JStr ''u2'')]
     [idea_a, idea_b] =
     (Inr (idea_a\<lparr>i_title := ''New'', i_updatedAt := 9\<rparr>),
      [idea_a\<lparr>i_title := ''New'', i_updatedAt := 9\<rparr>, idea_b])"
  using update_keeps_absent_fields
          [of "[(''title'', JStr ''New''), (''id'', JStr ''z''), (''userId'', JStr ''u2'')]"
              "''a''" "[note_a, note_b]" "''u1''" 9 "[task_a, task_b]" never_date
              "[idea_a, idea_b]"]
  by (simp add: updateNote_def note_update_def note_update_data_def note_patch_def
        updateTask_def task_update_def task_update_data_def task_patch_def
        updateIdea_def idea_update_def idea_update_data_def idea_patch_def
        get_def text_ok_def
        note_a_def note_b_def task_a_def task_b_def idea_a_def idea_b_def)

text \<open>
  The claim as stated fails on the update time: the request has only a title, and the
  stored update time of the note goes from 1 to 9.
\<close>

theorem update_changes_update_time_counterexample:
  "updateNote ''u1'' 9 ''a'' [(''title'', JStr ''New'')] [note_a] =
     (Inr \<lparr>n_id = ''a'', n_title = ''New'', n_content = ''milk'', n_color = ''#ffffff'',
           n_isPinned = False, n_userId = ''u1'', n_createdAt = 1, n_updatedAt = 9\<rparr>,
      [\<lparr>n_id = ''a'', n_title = ''New'', n_content = ''milk'', n_color = ''#ffffff'',
        n_isPinned = False, n_userId = ''u1'', n_createdAt = 1, n_updatedAt = 9\<rparr>]) \<and>
   n_updatedAt note_a = 1"
  by (simp add: updateNote_def note_update_def note_update_data_def note_patch_def
        get_def text_ok_def note_a_def)

section \<open>Bulk import\<close>

lemma length_le_longest: "s \<in> set used \<Longrightarrow> length s \<le> foldr (\<lambda>s m. max (length s) m) used 0"
  by (induction used) auto

lemma freshId_fresh: "freshId used \<notin> set used"
proof
  assume "freshId used \<in> set used"
  from length_le_longest[OF this] show False by (simp add: freshId_def)
qed

lemma is_text_as_text: "is_text v \<Longrightarrow> \<exists>s. v = JStr s \<and> text_ok s"
  by (cases v) auto

lemma text_ok_literals: "text_ok ''#ffffff''" "text_ok ''medium''" "text_ok ''general''"
  by (simp_all add: text_ok_def)

lemma those_map_Some:
  "(\<And>x. x \<in> set xs \<Longrightarrow> f x = Some (g x)) \<Longrightarrow> those (map f xs) = Some (map g xs)"
  by (induction xs) auto

lemma as_texts_all:
  "list_all is_text xs \<Longrightarrow> \<exists>ss. those (map as_text xs) = Some ss \<and> map JStr ss = xs"
proof (induction xs)
  case Nil
  then show ?case by simp
next
  case (Cons x xs)
  then obtain ss where ss: "those (map as_text xs) = Some ss" "map JStr ss = xs" by auto
  from Cons.prems obtain s where s: "x = JStr s" "text_ok s" by (cases x) auto
  show ?case using ss s by auto
qed

lemma note_sync_row:
  assumes "note_record_ok rec"
  obtains d where "note_sync_data rec = Some (None, d)"
    and "\<And>i. \<exists>row. note_row i uid now d = Some row \<and> n_id row = i \<and> note_imported uid rec row"
proof -
  from assms obtain kvs where rec: "rec = JObj kvs" by (cases rec) auto
  let ?d = "\<lparr>nd_title = get kvs ''title'', nd_content = get kvs ''content'',
              nd_color = js_or (get kvs ''color'') (JStr ''#ffffff''),
              nd_isPinned = js_or (get kvs ''isPinned'') (JBool False)\<rparr>"
  have sd: "note_sync_data rec = Some (None, ?d)"
    by (simp add: rec note_sync_data_def)
  from assms rec obtain t c where t: "get kvs ''title'' = JStr t" "text_ok t"
    and c: "get kvs ''content'' = JStr c" "text_ok c"
    using is_text_as_text by (metis note_record_ok.simps(1))
  from assms rec have "\<exists>col. js_or (get kvs ''color'') (JStr ''#ffffff'') = JStr col \<and> text_ok col"
    using is_text_as_text by (cases "truthy (get kvs ''color'')") (auto simp: js_or_def text_ok_literals)
  then obtain col where col: "js_or (get kvs ''color'') (JStr ''#ffffff'') = JStr col" "text_ok col"
    by blast
  from assms rec obtain p where p: "js_or (get kvs ''isPinned'') (JBool False) = JBool p"
    by (cases "truthy (get kvs ''isPinned'')") (auto simp: js_or_def)
  have "\<exists>row. note_row i uid now ?d = Some row \<and> n_id row = i \<and> note_imported uid rec row" for i
    by (simp add: note_row_def rec t c col p)
  with sd show ?thesis using that by blast
qed

lemma note_createMany_all:
  assumes "list_all2 (\<lambda>rec x. fst x = None \<and>
             (\<forall>i. \<exists>row. note_row i uid now (snd x) = Some row \<and> n_id row = i \<and> Q rec row)) recs ds"
  shows "\<exists>new. note_createMany uid now ds table = Some (length recs, table @ new) \<and>
               list_all2 Q recs new \<and> distinct (map n_id new) \<and>
               set (map n_id new) \<inter> set (map n_id table) = {}"
  using assms
proof (induction recs ds arbitrary: table rule: list_all2_induct)
  case Nil
  then show ?case by simp
next
  case (Cons rec recs x ds)
  obtain oid d where x: "x = (oid, d)" by (cases x)
  from Cons.hyps(1) x have oid: "oid = None" by simp
  let ?i = "freshId (map n_id table)"
  from Cons.hyps(1) x obtain row where
    row: "note_row ?i uid now d = Some row" "n_id row = ?i" "Q rec row"
    by auto
  have fresh: "?i \<notin> set (map n_id table)" by (rule freshId_fresh)
  from Cons.IH[of "table @ [row]"] obtain new where
    new: "note_createMany uid now ds (table @ [row]) = Some (length recs, (table @ [row]) @ new)"
      "list_all2 Q recs new" "distinct (map n_id new)"
      "set (map n_id new) \<inter> set (map n_id (table @ [row])) = {}"
    by auto
  have "note_createMany uid now (x # ds) table = Some (length (rec # recs), table @ (row # new))"
    using x oid row fresh new(1) by simp
  moreover have "list_all2 Q (rec # recs) (row # new)" using row(3) new(2) by simp
  moreover have "distinct (map n_id (row # new))" using new(3,4) by auto
  moreover have "set (map n_id (row # new)) \<inter> set (map n_id table) = {}"
    using new(4) fresh row(2) by auto
  ultimately show ?case by blast
qed

lemma bulkCreateNotes_rejects:
  "(\<forall>x xs. get body ''notes'' \<noteq> JArr (x # xs)) \<Longrightarrow>
   bulkCreateNotes uid now body table = (Inl (400, ''Notes array is required''), table)"
  by (auto simp: bulkCreateNotes_def split: jsval.splits list.splits)

lemma bulkCreateNotes_inserts:
  assumes body: "get body ''notes'' = JArr recs" and ne: "recs \<noteq> []"
    and ok: "\<forall>rec\<in>set recs. note_record_ok rec"
  shows "\<exists>new. bulkCreateNotes uid now body table = (Inr (length recs), table @ new) \<and>
               list_all2 (note_imported uid) recs new \<and> distinct (map n_id new) \<and>
               set (map n_id new) \<inter> set (map n_id table) = {}"
proof -
  let ?g = "\<lambda>rec. the (note_sync_data rec)"
  have g: "note_sync_data rec = Some (?g rec) \<and> fst (?g rec) = None \<and>
           (\<forall>i. \<exists>row. note_row i uid now (snd (?g rec)) = Some row \<and> n_id row = i \<and>
                       note_imported uid rec row)"
    if "rec \<in> set recs" for rec
  proof -
    from ok that have "note_record_ok rec" by blast
    then show ?thesis by (rule note_sync_row[of rec uid now]) auto
  qed
  have th: "those (map note_sync_data recs) = Some (map ?g recs)"
    by (rule those_map_Some) (use g in auto)
  have "list_all2 (\<lambda>rec x. fst x = None \<and>
             (\<forall>i. \<exists>row. note_row i uid now (snd x) = Some row \<and> n_id row = i \<and>
                         note_imported uid rec row)) recs (map ?g recs)"
    using g by (simp add: list_all2_map2 list_all2_same)
  from note_createMany_all[OF this, of table] obtain new where
    new: "note_createMany uid now (map ?g recs) table = Some (length recs, table @ new)"
      "list_all2 (note_imported uid) recs new" "distinct (map n_id new)"
      "set (map n_id new) \<inter> set (map n_id table) = {}"
    by blast
  from ne obtain r rs where rs: "recs = r # rs" by (cases recs) auto
  have "bulkCreateNotes uid now body table = (Inr (length recs), table @ new)"
    using body th new(1) unfolding bulkCreateNotes_def rs by simp
  with new show ?thesis by blast
qed

lemma task_sync_row:
  assumes "task_record_ok newDate rec"
  obtains d where "task_sync_data newDate rec = Some (None, d)"
    and "\<And>i. \<exists>row. task_row i uid now d = Some row \<and> t_id row = i \<and>
                     task_imported newDate uid rec row"
proof -
  from assms obtain kvs where rec: "rec = JObj kvs" by (cases rec) auto
  let ?d = "\<lparr>td_title = get kvs ''title'',
              td_description = js_or (get kvs ''description'') JNull,
              td_completed = js_or (get kvs ''completed'') (JBool False),
              td_priority = js_or (get kvs ''priority'') (JStr ''medium''),
              td_dueDate = (if truthy (get kvs ''dueDate'')
                            then DDate (newDate (get kvs ''dueDate'')) else DNull)\<rparr>"
  have sd: "task_sync_data newDate rec = Some (None, ?d)"
    by (simp add: rec task_sync_data_def)
  from assms rec obtain t where t: "get kvs ''title'' = JStr t" "text_ok t"
    using is_text_as_text by (metis task_record_ok.simps(1))
  from assms rec have ds: "\<exists>ds. as_opt_text (js_or (get kvs ''description'') JNull) = Some ds \<and>
        (case ds of None \<Rightarrow> \<not> truthy (get kvs ''description'')
                  | Some s \<Rightarrow> get kvs ''description'' = JStr s \<and> s \<noteq> [])"
    by (cases "get kvs ''description''") (auto simp: js_or_def)
  from assms rec obtain c where c: "js_or (get kvs ''completed'') (JBool False) = JBool c"
    by (cases "truthy (get kvs ''completed'')") (auto simp: js_or_def)
  from assms rec have p: "\<exists>p. as_priority (js_or (get kvs ''priority'') (JStr ''medium'')) = Some p \<and>
        js_or (get kvs ''priority'') (JStr ''medium'') = JStr p"
    by (cases "truthy (get kvs ''priority'')") (auto simp: js_or_def)
  from assms rec have due: "\<exists>due. as_opt_date (td_dueDate ?d) = Some due \<and>
        due = (if truthy (get kvs ''dueDate'') then newDate (get kvs ''dueDate'') else None)"
    by (cases "truthy (get kvs ''dueDate'')") auto
  from ds obtain dsv where dsv: "as_opt_text (js_or (get kvs ''description'') JNull) = Some dsv"
     "(case dsv of None \<Rightarrow> \<not> truthy (get kvs ''description'')
                  | Some s \<Rightarrow> get kvs ''description'' = JStr s \<and> s \<noteq> [])" by blast
  from p obtain pv where pv: "as_priority (js_or (get kvs ''priority'') (JStr ''medium'')) = Some pv"
     "js_or (get kvs ''priority'') (JStr ''medium'') = JStr pv" by blast
  from due obtain duev where duev: "as_opt_date (td_dueDate ?d) = Some duev"
     "duev = (if truthy (get kvs ''dueDate'') then newDate (get kvs ''dueDate'') else None)" by blast
  have "\<exists>row. task_row i uid now ?d = Some row \<and> t_id row = i \<and> task_imported newDate uid rec row"
    for i
    using dsv pv duev by (simp add: task_row_def rec t c)
  with sd show ?thesis using that by blast
qed

lemma task_createMany_all:
  assumes "list_all2 (\<lambda>rec x. fst x = None \<and>
             (\<forall>i. \<exists>row. task_row i uid now (snd x) = Some row \<and> t_id row = i \<and> Q rec row)) recs ds"
  shows "\<exists>new. task_createMany uid now ds table = Some (length recs, table @ new) \<and>
               list_all2 Q recs new \<and> distinct (map t_id new) \<and>
               set (map t_id new) \<inter> set (map t_id table) = {}"
  using assms
proof (induction recs ds arbitrary: table rule: list_all2_induct)
  case Nil
  then show ?case by simp
next
  case (Cons rec recs x ds)
  obtain oid d where x: "x = (oid, d)" by (cases x)
  from Cons.hyps(1) x have oid: "oid = None" by simp
  let ?i = "freshId (map t_id table)"
  from Cons.hyps(1) x obtain row where
    row: "task_row ?i uid now d = Some row" "t_id row = ?i" "Q rec row"
    by auto
  have fresh: "?i \<notin> set (map t_id table)" by (rule freshId_fresh)
  from Cons.IH[of "table @ [row]"] obtain new where
    new: "task_createMany uid now ds (table @ [row]) = Some (length recs, (table @ [row]) @ new)"
      "list_all2 Q recs new" "distinct (map t_id new)"
      "set (map t_id new) \<inter> set (map t_id (table @ [row])) = {}"
    by auto
  have "task_createMany uid now (x # ds) table = Some (length (rec # recs), table @ (row # new))"
    using x oid row fresh new(1) by simp
  moreover have "list_all2 Q (rec # recs) (row # new)" using row(3) new(2) by simp
  moreover have "distinct (map t_id (row # new))" using new(3,4) by auto
  moreover have "set (map t_id (row # new)) \<inter> set (map t_id table) = {}"
    using new(4) fresh row(2) by auto
  ultimately show ?case by blast
qed

lemma bulkCreateTasks_rejects:
  "(\<forall>x xs. get body ''tasks'' \<noteq> JArr (x # xs)) \<Longrightarrow>
   bulkCreateTasks newDate uid now body table = (Inl (400, ''Tasks array is required''), table)"
  by (auto simp: bulkCreateTasks_def split: jsval.splits list.splits)

lemma bulkCreateTasks_inserts:
  assumes body: "get body ''tasks'' = JArr recs" and ne: "recs \<noteq> []"
    and ok: "\<forall>rec\<in>set recs. task_record_ok newDate rec"
  shows "\<exists>new. bulkCreateTasks newDate uid now body table = (Inr (length recs), table @ new) \<and>
               list_all2 (task_imported newDate uid) recs new \<and> distinct (map t_id new) \<and>
               set (map t_id new) \<inter> set (map t_id table) = {}"
proof -
  let ?g = "\<lambda>rec. the (task_sync_data newDate rec)"
  have g: "task_sync_data newDate rec = Some (?g rec) \<and> fst (?g rec) = None \<and>
           (\<forall>i. \<exists>row. task_row i uid now (snd (?g rec)) = Some row \<and> t_id row = i \<and>
                       task_imported newDate uid rec row)"
    if "rec \<in> set recs" for rec
  proof -
    from ok that have "task_record_ok newDate rec" by blast
    then show ?thesis by (rule task_sync_row[of newDate rec uid now]) auto
  qed
  have th: "those (map (task_sync_data newDate) recs) = Some (map ?g recs)"
    by (rule those_map_Some) (use g in auto)
  have "list_all2 (\<lambda>rec x. fst x = None \<and>
             (\<forall>i. \<exists>row. task_row i uid now (snd x) = Some row \<and> t_id row = i \<and>
                         task_imported newDate uid rec row)) recs (map ?g recs)"
    using g by (simp add: list_all2_map2 list_all2_same)
  from task_createMany_all[OF this, of table] obtain new where
    new: "task_createMany uid now (map ?g recs) table = Some (length recs, table @ new)"
      "list_all2 (task_imported newDate uid) recs new" "distinct (map t_id new)"
      "set (map t_id new) \<inter> set (map t_id table) = {}"
    by blast
  from ne obtain r rs where rs: "recs = r # rs" by (cases recs) auto
  have "bulkCreateTasks newDate uid now body table = (Inr (length recs), table @ new)"
    using body th new(1) unfolding bulkCreateTasks_def rs by simp
  with new show ?thesis by blast
qed

lemma idea_sync_row:
  assumes "idea_record_ok rec"
  obtains d where "idea_sync_data rec = Some (None, d)"
    and "\<And>i. \<exists>row. idea_row i uid now d = Some row \<and> i_id row = i \<and> idea_imported uid rec row"
proof -
  from assms obtain kvs where rec: "rec = JObj kvs" by (cases rec) auto
  let ?tags = "(case get kvs ''tags'' of JArr xs \<Rightarrow> get kvs ''tags'' | _ \<Rightarrow> JArr [])"
  let ?d = "\<lparr>id_title = get kvs ''title'', id_description = get kvs ''description'',
              id_category = js_or (get kvs ''category'') (JStr ''general''),
              id_tags = ?tags\<rparr>"
  have sd: "idea_sync_data rec = Some (None, ?d)"
    by (simp add: rec idea_sync_data_def)
  from assms rec obtain t ds where t: "get kvs ''title'' = JStr t" "text_ok t"
    and ds: "get kvs ''description'' = JStr ds" "text_ok ds"
    using is_text_as_text by (metis idea_record_ok.simps(1))
  from assms rec have "\<exists>c. js_or (get kvs ''category'') (JStr ''general'') = JStr c \<and> text_ok c"
    using is_text_as_text by (cases "truthy (get kvs ''category'')") (auto simp: js_or_def text_ok_literals)
  then obtain c where c: "js_or (get kvs ''category'') (JStr ''general'') = JStr c" "text_ok c"
    by blast
  have "\<exists>ss. as_texts ?tags = Some ss \<and>
             JArr (map JStr ss) = (case get kvs ''tags'' of JArr xs \<Rightarrow> JArr xs | _ \<Rightarrow> JArr [])"
  proof (cases "get kvs ''tags''")
    case (JArr xs)
    with assms rec have "list_all is_text xs" by simp
    from as_texts_all[OF this] JArr show ?thesis by auto
  qed simp_all
  then obtain ss where ss: "as_texts ?tags = Some ss"
    "JArr (map JStr ss) = (case get kvs ''tags'' of JArr xs \<Rightarrow> JArr xs | _ \<Rightarrow> JArr [])"
    by blast
  have "\<exists>row. idea_row i uid now ?d = Some row \<and> i_id row = i \<and> idea_imported uid rec row" for i
    using ss by (simp add: idea_row_def rec t ds c)
  with sd show ?thesis using that by blast
qed

lemma idea_createMany_all:
  assumes "list_all2 (\<lambda>rec x. fst x = None \<and>
             (\<forall>i. \<exists>row. idea_row i uid now (snd x) = Some row \<and> i_id row = i \<and> Q rec row)) recs ds"
  shows "\<exists>new. idea_createMany uid now ds table = Some (length recs, table @ new) \<and>
               list_all2 Q recs new \<and> distinct (map i_id new) \<and>
               set (map i_id new) \<inter> set (map i_id table) = {}"
  using assms
proof (induction recs ds arbitrary: table rule: list_all2_induct)
  case Nil
  then show ?case by simp
next
  case (Cons rec recs x ds)
  obtain oid d where x: "x = (oid, d)" by (cases x)
  from Cons.hyps(1) x have oid: "oid = None" by simp
  let ?i = "freshId (map i_id table)"
  from Cons.hyps(1) x obtain row where
    row: "idea_row ?i uid now d = Some row" "i_id row = ?i" "Q rec row"
    by auto
  have fresh: "?i \<notin> set (map i_id table)" by (rule freshId_fresh)
  from Cons.IH[of "table @ [row]"] obtain new where
    new: "idea_createMany uid now ds (table @ [row]) = Some (length recs, (table @ [row]) @ new)"
      "list_all2 Q recs new" "distinct (map i_id new)"
      "set (map i_id new) \<inter> set (map i_id (table @ [row])) = {}"
    by auto
  have "idea_createMany uid now (x # ds) table = Some (length (rec # recs), table @ (row # new))"
    using x oid row fresh new(1) by simp
  moreover have "list_all2 Q (rec # recs) (row # new)" using row(3) new(2) by simp
  moreover have "distinct (map i_id (row # new))" using new(3,4) by auto
  moreover have "set (map i_id (row # new)) \<inter> set (map i_id table) = {}"
    using new(4) fresh row(2) by auto
  ultimately show ?case by blast
qed

lemma bulkCreateIdeas_rejects:
  "(\<forall>x xs. get body ''ideas'' \<noteq> JArr (x # xs)) \<Longrightarrow>
   bulkCreateIdeas uid now body table = (Inl (400, ''Ideas array is required''), table)"
  by (auto simp: bulkCreateIdeas_def split: jsval.splits list.splits)

lemma bulkCreateIdeas_inserts:
  assumes body: "get body ''ideas'' = JArr recs" and ne: "recs \<noteq> []"
    and ok: "\<forall>rec\<in>set recs. idea_record_ok rec"
  shows "\<exists>new. bulkCreateIdeas uid now body table = (Inr (length recs), table @ new) \<and>
               list_all2 (idea_imported uid) recs new \<and> distinct (map i_id new) \<and>
               set (map i_id new) \<inter> set (map i_id table) = {}"
proof -
  let ?g = "\<lambda>rec. the (idea_sync_data rec)"
  have g: "idea_sync_data rec = Some (?g rec) \<and> fst (?g rec) = None \<and>
           (\<forall>i. \<exists>row. idea_row i uid now (snd (?g rec)) = Some row \<and> i_id row = i \<and>
                       idea_imported uid rec row)"
    if "rec \<in> set recs" for rec
  proof -
    from ok that have "idea_record_ok rec" by blast
    then show ?thesis by (rule idea_sync_row[of rec uid now]) auto
  qed
  have th: "those (map idea_sync_data recs) = Some (map ?g recs)"
    by (rule those_map_Some) (use g in auto)
  have "list_all2 (\<lambda>rec x. fst x = None \<and>
             (\<forall>i. \<exists>row. idea_row i uid now (snd x) = Some row \<and> i_id row = i \<and>
                         idea_imported uid rec row)) recs (map ?g recs)"
    using g by (simp add: list_all2_map2 list_all2_same)
  from idea_createMany_all[OF this, of table] obtain new where
    new: "idea_createMany uid now (map ?g recs) table = Some (length recs, table @ new)"
      "list_all2 (idea_imported uid) recs new" "distinct (map i_id new)"
      "set (map i_id new) \<inter> set (map i_id table) = {}"
    by blast
  from ne obtain r rs where rs: "recs = r # rs" by (cases recs) auto
  have "bulkCreateIdeas uid now body table = (Inr (length recs), table @ new)"
    using body th new(1) unfolding bulkCreateIdeas_def rs by simp
  with new show ?thesis by blast
qed

text \<open>
  Claim C1, amended. A bulk import whose array is absent, not an array or empty
  answers 400 and leaves the table as it is. Otherwise, when every record of the
  array is one the database accepts (its required fields are strings, and no string
  of it has the character U+0000), every record is inserted: the answer is the
  number of records, the table afterwards is the table before followed by one new
  row per record, in order, each with the caller as owner, the record's fields and
  the defaults of Create, under identifiers that are new and differ from one
  another. An identifier that a record of the request carries is not read, so no
  record is skipped for it. This holds for notes, tasks and ideas.
\<close>

theorem bulk_import_inserts_every_record:
  "((\<forall>x xs. get body ''notes'' \<noteq> JArr (x # xs)) \<longrightarrow>
      bulkCreateNotes uid now body notes = (Inl (400, ''Notes array is required''), notes)) \<and>
   (get body ''notes'' = JArr ns \<and> ns \<noteq> [] \<and> (\<forall>rec\<in>set ns. note_record_ok rec) \<longrightarrow>
      (\<exists>new. bulkCreateNotes uid now body notes = (Inr (length ns), notes @ new) \<and>
             list_all2 (note_imported uid) ns new \<and> distinct (map n_id new) \<and>
             set (map n_id new) \<inter> set (map n_id notes) = {})) \<and>
   ((\<forall>x xs. get body ''tasks'' \<noteq> JArr (x # xs)) \<longrightarrow>
      bulkCreateTasks newDate uid now body tasks = (Inl (400, ''Tasks array is required''), tasks)) \<and>
   (get body ''tasks'' = JArr ts \<and> ts \<noteq> [] \<and> (\<forall>rec\<in>set ts. task_record_ok newDate rec) \<longrightarrow>
      (\<exists>new. bulkCreateTasks newDate uid now body tasks = (Inr (length ts), tasks @ new) \<and>
             list_all2 (task_imported newDate uid) ts new \<and> distinct (map t_id new) \<and>
             set (map t_id new) \<inter> set (map t_id tasks) = {})) \<and>
   ((\<forall>x xs. get body ''ideas'' \<noteq> JArr (x # xs)) \<longrightarrow>
      bulkCreateIdeas uid now body ideas = (Inl (400, ''Ideas array is required''), ideas)) \<and>
   (get body ''ideas'' = JArr is \<and> is \<noteq> [] \<and> (\<forall>rec\<in>set is. idea_record_ok rec) \<longrightarrow>
      (\<exists>new. bulkCreateIdeas uid now body ideas = (Inr (length is), ideas @ new) \<and>
             list_all2 (idea_imported uid) is new \<and> distinct (map i_id new) \<and>
             set (map i_id new) \<inter> set (map i_id ideas) = {}))"
  using bulkCreateNotes_rejects[of body uid now "notes"]
    bulkCreateNotes_inserts[of body ns uid now "notes"]
    bulkCreateTasks_rejects[of body newDate uid now tasks]
    bulkCreateTasks_inserts[of body ts newDate uid now tasks]
    bulkCreateIdeas_rejects[of body uid now ideas]
    bulkCreateIdeas_inserts[of body "is" uid now ideas]
  by blast

text \<open>
  An empty body: 400 three times. A body with two notes, a task and an idea, the
  first note with fields of its own and the others with only what is required: four
  rows, with the defaults.
\<close>

theorem bulk_import_inserts_every_record_witness:
  "bulkCreateNotes ''u1'' 5 [] [note_b] = (Inl (400, ''Notes array is required''), [note_b]) \<and>
   bulkCreateTasks (\<lambda>v. None) ''u1'' 5 [] [task_b] =
     (Inl (400, ''Tasks array is required''), [task_b]) \<and>
   bulkCreateIdeas ''u1'' 5 [] [idea_b] = (Inl (400, ''Ideas array is required''), [idea_b]) \<and>
   bulkCreateNotes ''u1'' 5 example_sync_body [note_b] =
     (Inr 2, [note_b,
              \<lparr>n_id = ''00'', n_title = ''A'', n_content = ''B'', n_color = ''#3b82f6'',
               n_isPinned = True, n_userId = ''u1'', n_createdAt = 5, n_updatedAt = 5\<rparr>,
              \<lparr>n_id = ''000'', n_title = ''C'', n_content = ''D'', n_color = ''#ffffff'',
               n_isPinned = False, n_userId = ''u1'', n_createdAt = 5, n_updatedAt = 5\<rparr>]) \<and>
   bulkCreateTasks (\<lambda>v. None) ''u1'' 5 example_sync_body [task_b] =
     (Inr 1, [task_b,
              \<lparr>t_id = ''00'', t_title = ''T'', t_description = None, t_completed = False,
               t_priority = ''medium'', t_dueDate = None, t_userId = ''u1'', t_createdAt = 5, t_updatedAt = 5\<rparr>]) \<and>
   bulkCreateIdeas ''u1'' 5 example_sync_body [idea_b] =
     (Inr 1, [idea_b,
              \<lparr>i_id = ''00'', i_title = ''I'', i_description = ''J'', i_category = ''general'',
               i_tags = [], i_userId = ''u1'', i_createdAt = 5, i_updatedAt = 5\<rparr>])"
  using bulk_import_inserts_every_record
          [of "[]" "''u1''" 5 "[note_b]" "[]" "\<lambda>v. None" "[task_b]" "[]" "[idea_b]" "[]"]
        bulk_import_inserts_every_record
          [of example_sync_body "''u1''" 5 "[note_b]"
              "[JObj [(''title'', JStr ''A''), (''content'', JStr ''B''),
                      (''color'', JStr ''#3b82f6''), (''isPinned'', JBool True)],
                JObj [(''title'', JStr ''C''), (''content'', JStr ''D'')]]"
              "\<lambda>v. None" "[task_b]" "[JObj [(''title'', JStr ''T'')]]" "[idea_b]"
              "[JObj [(''title'', JStr ''I''), (''description'', JStr ''J'')]]"]
  by (simp add: example_sync_body_def bulkCreateNotes_def bulkCreateTasks_def bulkCreateIdeas_def
        note_sync_data_def task_sync_data_def idea_sync_data_def get_def js_or_def
        note_row_def task_row_def idea_row_def freshId_def text_ok_def
        note_b_def task_b_def idea_b_def)

text \<open>
  The claim as stated fails where a record of the request has the identifier of a
  stored row: the record is not skipped. It is inserted under a new identifier and
  counted.
\<close>

theorem bulk_import_colliding_id_counterexample:
  "bulkCreateNotes ''u1'' 5
     [(''notes'', JArr [JObj [(''id'', JStr ''a''), (''title'', JStr ''Dup''),
                               (''content'', JStr ''x'')]])]
     [note_a] =
     (Inr 1, [note_a,
              \<lparr>n_id = ''00'', n_title = ''Dup'', n_content = ''x'', n_color = ''#ffffff'',
               n_isPinned = False, n_userId = ''u1'', n_createdAt = 5, n_updatedAt = 5\<rparr>])"
  by (simp add: bulkCreateNotes_def note_sync_data_def get_def js_or_def note_row_def
        freshId_def text_ok_def note_a_def)

text \<open>
  A record whose title has the character U+0000 is one the database rejects: the
  import answers 500 and inserts nothing, the record beside it included.
\<close>

lemma bulk_import_rejects_nul:
  "bulkCreateNotes ''u1'' 5
     [(''notes'', JArr [JObj [(''title'', JStr ''ok''), (''content'', JStr ''c'')],
                        JObj [(''title'', JStr [CHR ''a'', CHR 0x00, CHR ''b'']),
                              (''content'', JStr ''c'')]])]
     [note_a] =
     (Inl (500, ''Failed to sync notes''), [note_a])"
  by (simp add: bulkCreateNotes_def note_sync_data_def get_def js_or_def note_row_def
        freshId_def text_ok_def note_a_def)

section \<open>The client stores\<close>

lemma map_of_assign: "map_of (assign k v ps) = (map_of ps)(k \<mapsto> v)"
  by (induction ps) (auto simp: fun_eq_iff)

lemma get_assign: "get (assign k v ps) k' = (if k' = k then v else get ps k')"
  by (simp add: get_def map_of_assign)

text \<open>
  Claim C2, amended. A guest Add of \<open>{title: "A", content: "B"}\<close> to the empty notes
  store succeeds and leaves a list of one note. The note has the generated
  identifier, the two fields and the two timestamps, and no other field: no color
  and no pinned flag. The persisted list is the list in memory. And for any fields
  and any store, the new note goes in front and the persisted list is the list.
\<close>

theorem guest_add_note:
  "useNotesStore_addNote [(''title'', JStr ''A''), (''content'', JStr ''B'')] False newId t1 t2 api
     initial_store =
     (Success (JObj [(''id'', JStr newId), (''title'', JStr ''A''), (''content'', JStr ''B''),
                     (''createdAt'', JStr t1), (''updatedAt'', JStr t2)]),
      [\<lparr>records = [[(''id'', JStr newId), (''title'', JStr ''A''), (''content'', JStr ''B''),
                      (''createdAt'', JStr t1), (''updatedAt'', JStr t2)]],
        loading = False, error = JNull,
        persisted = [[(''id'', JStr newId), (''title'', JStr ''A''), (''content'', JStr ''B''),
                      (''createdAt'', JStr t1), (''updatedAt'', JStr t2)]]\<rparr>]) \<and>
   (\<exists>newNote s'. useNotesStore_addNote noteData False newId t1 t2 api state =
                    (Success (JObj newNote), [s']) \<and>
                  records s' = newNote # records state \<and> persisted s' = records s' \<and>
                  get newNote ''createdAt'' = JStr t1 \<and> get newNote ''updatedAt'' = JStr t2)"
  by (simp add: useNotesStore_addNote_def initial_store_def set_state_def partialize_def
        spread_def Let_def get_assign)

text \<open>
  The claim as stated fails on the defaults: the note that guest Add stores for
  \<open>{title: "A", content: "B"}\<close> has neither a color nor a pinned flag.
\<close>

theorem guest_add_note_no_defaults_counterexample:
  "get (hd (records (last (snd (useNotesStore_addNote
          [(''title'', JStr ''A''), (''content'', JStr ''B'')] False
          ''1700000000000-k3j9x0q1z'' ''2023-11-14T22:13:20.000Z'' ''2023-11-14T22:13:20.000Z''
          offline initial_store))))) ''color'' = JUndefined \<and>
   get (hd (records (last (snd (useNotesStore_addNote
          [(''title'', JStr ''A''), (''content'', JStr ''B'')] False
          ''1700000000000-k3j9x0q1z'' ''2023-11-14T22:13:20.000Z'' ''2023-11-14T22:13:20.000Z''
          offline initial_store))))) ''isPinned'' = JUndefined"
  by (simp add: useNotesStore_addNote_def initial_store_def set_state_def partialize_def
        spread_def get_def Let_def)

lemma pending_notes:
  "pending_then_settled state (useNotesStore_addNote d True newId t1 t2 api state)"
  "pending_then_settled state (useNotesStore_updateNote i d True t api state)"
  "pending_then_settled state (useNotesStore_deleteNote i True api state)"
  by (auto simp: pending_then_settled_def useNotesStore_addNote_def useNotesStore_updateNote_def
        useNotesStore_deleteNote_def set_state_def Let_def split: api_result.splits)

lemma pending_tasks:
  "pending_then_settled state (useTasksStore_addTask d True newId t1 t2 api state)"
  "pending_then_settled state (useTasksStore_updateTask i d True t api state)"
  "pending_then_settled state (useTasksStore_deleteTask i True api state)"
  by (auto simp: pending_then_settled_def useTasksStore_addTask_def useTasksStore_updateTask_def
        useTasksStore_deleteTask_def set_state_def Let_def split: api_result.splits)

lemma pending_ideas:
  "pending_then_settled state (useIdeasStore_addIdea d True newId t1 t2 api state)"
  "pending_then_settled state (useIdeasStore_updateIdea i d True t api state)"
  "pending_then_settled state (useIdeasStore_deleteIdea i True api state)"
  by (auto simp: pending_then_settled_def useIdeasStore_addIdea_def useIdeasStore_updateIdea_def
        useIdeasStore_deleteIdea_def set_state_def Let_def split: api_result.splits)

lemma guest_notes:
  "never_pending state (useNotesStore_addNote d False newId t1 t2 api state)"
  "never_pending state (useNotesStore_updateNote i d False t api state)"
  "never_pending state (useNotesStore_deleteNote i False api state)"
  by (auto simp: never_pending_def useNotesStore_addNote_def useNotesStore_updateNote_def
        useNotesStore_deleteNote_def set_state_def Let_def)

lemma guest_tasks:
  "never_pending state (useTasksStore_addTask d False newId t1 t2 api state)"
  "never_pending state (useTasksStore_updateTask i d False t api state)"
  "never_pending state (useTasksStore_deleteTask i False api state)"
  by (auto simp: never_pending_def useTasksStore_addTask_def useTasksStore_updateTask_def
        useTasksStore_deleteTask_def set_state_def Let_def)

lemma guest_ideas:
  "never_pending state (useIdeasStore_addIdea d False newId t1 t2 api state)"
  "never_pending state (useIdeasStore_updateIdea i d False t api state)"
  "never_pending state (useIdeasStore_deleteIdea i False api state)"
  by (auto simp: never_pending_def useIdeasStore_addIdea_def useIdeasStore_updateIdea_def
        useIdeasStore_deleteIdea_def set_state_def Let_def)

text \<open>
  Claim C8, amended. Add, Update and Delete of each of the three stores, and Toggle
  of a task that is in the list, called in authenticated mode, set \<open>loading\<close> with
  their first write and clear it with their last, and when they report a failure the
  message is in \<open>error\<close> and the list is the list before the call. Called in guest
  mode they write once and leave \<open>loading\<close> as it was. Toggle of a task that is not in
  the list reports a failure in either mode and writes nothing.
\<close>

theorem store_call_states:
  "pending_then_settled state (useNotesStore_addNote d True newId t1 t2 api state) \<and>
   pending_then_settled state (useNotesStore_updateNote i d True t api state) \<and>
   pending_then_settled state (useNotesStore_deleteNote i True api state) \<and>
   pending_then_settled state (useTasksStore_addTask d True newId t1 t2 api state) \<and>
   pending_then_settled state (useTasksStore_updateTask i d True t api state) \<and>
   pending_then_settled state (useTasksStore_deleteTask i True api state) \<and>
   pending_then_settled state (useIdeasStore_addIdea d True newId t1 t2 api state) \<and>
   pending_then_settled state (useIdeasStore_updateIdea i d True t api state) \<and>
   pending_then_settled state (useIdeasStore_deleteIdea i True api state) \<and>
   never_pending state (useNotesStore_addNote d False newId t1 t2 api state) \<and>
   never_pending state (useNotesStore_updateNote i d False t api state) \<and>
   never_pending state (useNotesStore_deleteNote i False api state) \<and>
   never_pending state (useTasksStore_addTask d False newId t1 t2 api state) \<and>
   never_pending state (useTasksStore_updateTask i d False t api state) \<and>
   never_pending state (useTasksStore_deleteTask i False api state) \<and>
   never_pending state (useIdeasStore_addIdea d False newId t1 t2 api state) \<and>
   never_pending state (useIdeasStore_updateIdea i d False t api state) \<and>
   never_pending state (useIdeasStore_deleteIdea i False api state) \<and>
   (find (\<lambda>task. get task ''id'' = JStr i) (records state) \<noteq> None \<longrightarrow>
      pending_then_settled state (useTasksStore_toggleTask i True t api state) \<and>
      never_pending state (useTasksStore_toggleTask i False t api state)) \<and>
   (find (\<lambda>task. get task ''id'' = JStr i) (records state) = None \<longrightarrow>
      useTasksStore_toggleTask i mode t api state =
        (Failure (JStr ''Task not found''), []))"
  by (auto simp: pending_notes pending_tasks pending_ideas guest_notes guest_tasks guest_ideas
        useTasksStore_toggleTask_def)

text \<open>
  A Delete the server refuses: \<open>loading\<close> goes up and down, the message is kept, the
  note stays. The same Delete as a guest: one write, the note is gone. A Toggle of
  the record in the list that the server refuses goes the same way as the Delete.
\<close>

theorem store_call_states_witness:
  "useNotesStore_deleteNote ''n1'' True refusing one_note_store =
     (Failure (JStr ''Note not found''),
      [one_note_store\<lparr>loading := True\<rparr>,
       one_note_store\<lparr>error := JStr ''Note not found''\<rparr>]) \<and>
   useNotesStore_deleteNote ''n1'' False refusing one_note_store =
     (Success JUndefined, [one_note_store\<lparr>records := [], persisted := []\<rparr>]) \<and>
   useTasksStore_toggleTask ''n1'' True ''t'' refusing one_note_store =
     (Failure (JStr ''Note not found''),
      [one_note_store\<lparr>loading := True\<rparr>,
       one_note_store\<lparr>error := JStr ''Note not found''\<rparr>]) \<and>
   useTasksStore_toggleTask ''n2'' False ''t'' refusing one_note_store =
     (Failure (JStr ''Task not found''), [])"
  using store_call_states
          [of one_note_store "[]" "''x''" "''t''" "''t''" refusing "''n1''" "''t''" True]
        store_call_states
          [of one_note_store "[]" "''x''" "''t''" "''t''" refusing "''n2''" "''t''" False]
  by (simp add: useNotesStore_deleteNote_def useTasksStore_toggleTask_def
        useTasksStore_updateTask_def one_note_store_def refusing_def set_state_def
        partialize_def js_or_def get_def Let_def)

text \<open>
  The claim as stated fails on Toggle: in authenticated mode, for a task that is not
  in the list, the call fails and the store is not written, so \<open>loading\<close> was never
  set and no error message is stored.
\<close>

theorem toggle_missing_task_counterexample:
  "useTasksStore_toggleTask ''missing'' True ''2023-11-14T22:13:20.000Z'' accepting
     one_note_store =
     (Failure (JStr ''Task not found''), [])"
  by (simp add: useTasksStore_toggleTask_def one_note_store_def get_def)

section \<open>The completed flag of a new task\<close>






section \<open>Sign-up with a failing sync\<close>

lemma js_or_idem: "js_or (js_or a b) b = js_or a b"
  by (simp add: js_or_def)

lemma register_failure:
  fixes post :: "'srv transport"
  assumes reg: "api_post post ''/auth/register''
                  [(''email'', JStr email), (''password'', JStr password), (''name'', JStr name)]
                  (snd aw) = (Resolved d, w1)"
    and n: "sync_records post ''/notes/sync'' ''notes'' (g_notes g)
              (w1\<lparr>znote_token := Some (get d ''token'')\<rparr>) = (rn, w2)"
    and t: "sync_records post ''/tasks/sync'' ''tasks'' (g_tasks g) w2 = (rt, w3)"
    and i: "sync_records post ''/ideas/sync'' ''ideas'' (g_ideas g) w3 = (ri, w4)"
    and fail: "rn \<noteq> None \<or> rt \<noteq> None \<or> ri \<noteq> None"
  shows "register email password name (Some g) post aw =
           (Failure (js_or (the (if rn \<noteq> None then rn else if rt \<noteq> None then rt else ri))
                       (JStr ''Registration failed'')),
            (fst aw)\<lparr>user := get d ''user'', token := get d ''token'',
                      isAuthenticated := True, isGuest := False\<rparr>,
            (if rn \<noteq> None then w2 else if rt \<noteq> None then w3 else w4))"
proof (cases rn)
  case (Some e)
  then show ?thesis using reg n by (simp add: register_def Let_def)
next
  case None
  note rn = this
  show ?thesis
  proof (cases rt)
    case (Some e)
    then show ?thesis using reg n t rn by (simp add: register_def Let_def)
  next
    case None
    with fail rn obtain e where "ri = Some e" by auto
    then show ?thesis using reg n t i rn None by (simp add: register_def Let_def)
  qed
qed

text \<open>
  Claim C10. A guest with local records signs up; the registration call resolves;
  then the syncs run in the order notes, tasks, ideas, each from the network the one
  before left, and one of them is rejected. Then \<open>register\<close> returns a failure with
  the error of the first rejected sync, and afterwards the page is the page before
  with three changes: the auth store holds the user and token of the registration
  and is authenticated, the network is the one the rejected call left (so what the
  syncs before it did to the server stays done), and the page shows the error. The
  three stores, with their lists, are as before, and the page has not moved on.
\<close>

theorem sync_failure_keeps_guest_lists:
  fixes post :: "'srv transport"
  assumes guest: "records (notesStore p) \<noteq> [] \<or> records (tasksStore p) \<noteq> [] \<or>
                  records (ideasStore p) \<noteq> []"
    and reg: "api_post post ''/auth/register''
                [(''email'', JStr email), (''password'', JStr password), (''name'', JStr name)]
                (network p) = (Resolved d, w1)"
    and n: "sync_records post ''/notes/sync'' ''notes''
              (useNotesStore_getNotesForSync (notesStore p))
              (w1\<lparr>znote_token := Some (get d ''token'')\<rparr>) = (rn, w2)"
    and t: "sync_records post ''/tasks/sync'' ''tasks''
              (useTasksStore_getTasksForSync (tasksStore p)) w2 = (rt, w3)"
    and i: "sync_records post ''/ideas/sync'' ''ideas''
              (useIdeasStore_getIdeasForSync (ideasStore p)) w3 = (ri, w4)"
    and fail: "rn \<noteq> None \<or> rt \<noteq> None \<or> ri \<noteq> None"
  shows "fst (register email password name
                (Some \<lparr>g_notes = useNotesStore_getNotesForSync (notesStore p),
                       g_tasks = useTasksStore_getTasksForSync (tasksStore p),
                       g_ideas = useIdeasStore_getIdeasForSync (ideasStore p)\<rparr>)
                post (authStore p, network p)) =
           Failure (js_or (the (if rn \<noteq> None then rn else if rt \<noteq> None then rt else ri))
                      (JStr ''Registration failed'')) \<and>
         handleSubmit_register email password name post p =
           p\<lparr>authStore := (authStore p)\<lparr>user := get d ''user'', token := get d ''token'',
                                         isAuthenticated := True, isGuest := False\<rparr>,
             network := (if rn \<noteq> None then w2 else if rt \<noteq> None then w3 else w4),
             pageError := js_or (the (if rn \<noteq> None then rn else if rt \<noteq> None then rt else ri))
                                (JStr ''Registration failed'')\<rparr>"
proof -
  let ?g = "\<lparr>g_notes = useNotesStore_getNotesForSync (notesStore p),
              g_tasks = useTasksStore_getTasksForSync (tasksStore p),
              g_ideas = useIdeasStore_getIdeasForSync (ideasStore p)\<rparr>"
  have "register email password name (Some ?g) post (authStore p, network p) =
           (Failure (js_or (the (if rn \<noteq> None then rn else if rt \<noteq> None then rt else ri))
                       (JStr ''Registration failed'')),
            (authStore p)\<lparr>user := get d ''user'', token := get d ''token'',
                      isAuthenticated := True, isGuest := False\<rparr>,
            (if rn \<noteq> None then w2 else if rt \<noteq> None then w3 else w4))"
    using register_failure
            [of post email password name "(authStore p, network p)" d w1 ?g rn w2 rt w3 ri w4]
      reg n t i fail by simp
  then show ?thesis
    using guest by (simp add: handleSubmit_register_def Let_def js_or_idem)
qed

text \<open>
  The guest's note is synced; the task, whose due date the server cannot read, is
  refused with 500. The note is on the server, the account is signed in, and the
  note and the task are still in the local stores.
\<close>

theorem sync_failure_keeps_guest_lists_witness:
  "handleSubmit_register ''ann@example.com'' ''secret'' [] example_post guest_page =
     guest_page\<lparr>
       authStore := \<lparr>user = JObj [(''id'', JStr ''u1'')], token = JStr ''jwt'',
                     isAuthenticated = True, isGuest = False\<rparr>,
       network := \<lparr>znote_token = Some (JStr ''jwt''),
                   server = \<lparr>srv_notes = [\<lparr>n_id = ''0'', n_title = ''A'', n_content = ''B'',
                                            n_color = ''#ffffff'', n_isPinned = False,
                                            n_userId = ''u1'', n_createdAt = 5, n_updatedAt = 5\<rparr>],
                             srv_tasks = [], srv_ideas = []\<rparr>\<rparr>,
       pageError := JStr ''Failed to sync tasks''\<rparr>"
  using sync_failure_keeps_guest_lists
          [of guest_page example_post "''ann@example.com''" "''secret''" "[]"
              "[(''user'', JObj [(''id'', JStr ''u1'')]), (''token'', JStr ''jwt'')]"
              "\<lparr>znote_token = None, server = \<lparr>srv_notes = [], srv_tasks = [], srv_ideas = []\<rparr>\<rparr>"
              None
              "\<lparr>znote_token = Some (JStr ''jwt''),
                server = \<lparr>srv_notes = [\<lparr>n_id = ''0'', n_title = ''A'', n_content = ''B'',
                                          n_color = ''#ffffff'', n_isPinned = False,
                                          n_userId = ''u1'', n_createdAt = 5, n_updatedAt = 5\<rparr>],
                          srv_tasks = [], srv_ideas = []\<rparr>\<rparr>"
              "Some (JStr ''Failed to sync tasks'')"
              "\<lparr>znote_token = Some (JStr ''jwt''),
                server = \<lparr>srv_notes = [\<lparr>n_id = ''0'', n_title = ''A'', n_content = ''B'',
                                          n_color = ''#ffffff'', n_isPinned = False,
                                          n_userId = ''u1'', n_createdAt = 5, n_updatedAt = 5\<rparr>],
                          srv_tasks = [], srv_ideas = []\<rparr>\<rparr>"
              None
              "\<lparr>znote_token = Some (JStr ''jwt''),
                server = \<lparr>srv_notes = [\<lparr>n_id = ''0'', n_title = ''A'', n_content = ''B'',
                                          n_color = ''#ffffff'', n_isPinned = False,
                                          n_userId = ''u1'', n_createdAt = 5, n_updatedAt = 5\<rparr>],
                          srv_tasks = [], srv_ideas = []\<rparr>\<rparr>"]
  by (simp add: guest_page_def example_post_def initial_store_def initial_auth_def
        api_post_def sync_records_def as_api_result_def never_date_def
        useNotesStore_getNotesForSync_def useTasksStore_getTasksForSync_def
        useIdeasStore_getIdeasForSync_def without_def
        bulkCreateNotes_def bulkCreateTasks_def note_sync_data_def task_sync_data_def
        note_row_def task_row_def get_def js_or_def freshId_def text_ok_def)

end
